theory Spec2Isabelle
  imports Complex_Main "HOL-Library.Word" "HOL-Library.Signed_Division" "HOL-Library.Log_Nat"
begin

section \<open>Strings (Go package \<^verbatim>\<open>strings\<close>, on bytes)\<close>

definition HasPrefix :: "string \<Rightarrow> string \<Rightarrow> bool" where
  "HasPrefix s p = (take (length p) s = p)"

definition TrimPrefix :: "string \<Rightarrow> string \<Rightarrow> string" where
  "TrimPrefix s p = (if HasPrefix s p then drop (length p) s else s)"

definition HasSuffix :: "string \<Rightarrow> string \<Rightarrow> bool" where
  "HasSuffix s x = (length x \<le> length s \<and> drop (length s - length x) s = x)"

definition TrimSuffix :: "string \<Rightarrow> string \<Rightarrow> string" where
  "TrimSuffix s x = (if HasSuffix s x then take (length s - length x) s else s)"

fun Contains :: "string \<Rightarrow> string \<Rightarrow> bool" where
  "Contains [] sub = (sub = [])"
| "Contains (c # cs) sub = (HasPrefix (c # cs) sub \<or> Contains cs sub)"

text \<open>\<^verbatim>\<open>strings.Split(s, sep)\<close> for a separator of one byte: the fields between the
  separators, one field more than there are separators (so \<^verbatim>\<open>Split("", "|")\<close> is one
  empty field).\<close>

fun split_from :: "string \<Rightarrow> string \<Rightarrow> char \<Rightarrow> string list" where
  "split_from field [] sep = [field]"
| "split_from field (c # cs) sep =
     (if c = sep then field # split_from [] cs sep
      else split_from (field @ [c]) cs sep)"

definition Split :: "string \<Rightarrow> char \<Rightarrow> string list" where
  "Split s sep = split_from [] s sep"

text \<open>\<^verbatim>\<open>hex.EncodeToString\<close> and the verb \<^verbatim>\<open>%x\<close> on a byte slice: two lower-case
  hexadecimal digits for each byte.\<close>

definition hex_digit :: "nat \<Rightarrow> char" where
  "hex_digit n = ''0123456789abcdef'' ! (n mod 16)"

definition hex_EncodeToString :: "8 word list \<Rightarrow> string" where
  "hex_EncodeToString bs =
     concat (map (\<lambda>b. [hex_digit (unat b div 16), hex_digit (unat b mod 16)]) bs)"

section \<open>Durations, times and the conversions through float64\<close>

text \<open>\<^verbatim>\<open>time.Duration\<close> is an int64 count of nanoseconds; its arithmetic wraps around.
  A \<^verbatim>\<open>time.Time\<close> is modelled as an unbounded count of nanoseconds (the range of Go's
  representation is far wider than int64 nanoseconds).\<close>

type_synonym Duration = "64 word"
type_synonym Time = int

definition Second :: Duration where
  "Second = 1000000000"

definition Hour :: Duration where
  "Hour = 3600 * Second"

definition Time_Add :: "Time \<Rightarrow> Duration \<Rightarrow> Time" where
  "Time_Add t d = t + sint d"

definition Time_After :: "Time \<Rightarrow> Time \<Rightarrow> bool" where
  "Time_After t u = (u < t)"

text \<open>A float64 value is modelled by the rational number it denotes. Rounding to the
  nearest float64 (ties to even, 53-bit significand) is needed for
  \<^verbatim>\<open>Duration.Seconds\<close>, whose operands stay in the normal range.\<close>

definition float64_exponent :: "rat \<Rightarrow> int" where
  "float64_exponent x =
     (let (p, q) = quotient_of \<bar>x\<bar>; d = bitlen p - bitlen q
      in if 2 powi d \<le> \<bar>x\<bar> then d else d - 1)"

definition float64_round :: "rat \<Rightarrow> rat" where
  "float64_round x =
     (if x = 0 then 0
      else let u = 2 powi (float64_exponent x - 52);
               q = x / u;
               f = \<lfloor>q\<rfloor>;
               r = q - of_int f;
               n = (if r < 1 / 2 then f
                    else if 1 / 2 < r then f + 1
                    else if even f then f else f + 1)
           in of_int n * u)"

text \<open>\<^verbatim>\<open>func (d Duration) Seconds() float64\<close>:
  \<^verbatim>\<open>sec := d / Second; nsec := d % Second; return float64(sec) + float64(nsec)/1e9\<close>.\<close>

definition Duration_Seconds :: "Duration \<Rightarrow> rat" where
  "Duration_Seconds d =
     (let sec = sint d sdiv 1000000000;
          nsec = sint d smod 1000000000
      in float64_round (of_int sec + float64_round (of_int nsec / 1000000000)))"

text \<open>Conversion of a float64 to an integer discards the fraction.\<close>

definition float_trunc :: "rat \<Rightarrow> int" where
  "float_trunc x = (if 0 \<le> x then \<lfloor>x\<rfloor> else \<lceil>x\<rceil>)"

text \<open>\<^verbatim>\<open>int(d.Seconds())\<close>; the value is always within the range of \<^verbatim>\<open>int\<close>.\<close>

definition Seconds_int :: "Duration \<Rightarrow> int" where
  "Seconds_int d = float_trunc (Duration_Seconds d)"

section \<open>Values, requests and responses\<close>

text \<open>A Go value held in an \<^verbatim>\<open>interface{}\<close>: what \<^verbatim>\<open>encoding/json\<close> decodes to
  (nil, bool, float64, string, slice, map) and the values the handlers put into maps
  themselves (int, \<^verbatim>\<open>time.Time\<close>, \<^verbatim>\<open>[]string\<close>, \<^verbatim>\<open>map[string]string\<close>).
  A \<^verbatim>\<open>map[string]interface{}\<close> is an association list; a nil map is \<open>None\<close>.\<close>

datatype go_value =
    GNil
  | GBool bool
  | GFloat rat
  | GInt int
  | GString string
  | GTime Time
  | GStrings "string list"
  | GStringMap "(string \<times> string) list"
  | GSlice "go_value list"
  | GMap "(string \<times> go_value) list"

type_synonym data = "(string \<times> go_value) list"

text \<open>A map field stored as an \<^verbatim>\<open>interface{}\<close> value (nil map and nil both encode
  as JSON null).\<close>

definition of_data :: "data option \<Rightarrow> go_value" where
  "of_data d = (case d of None \<Rightarrow> GNil | Some m \<Rightarrow> GMap m)"

text \<open>Reading a key of a map that may be nil: the zero value nil when absent.\<close>

definition lookup :: "data option \<Rightarrow> string \<Rightarrow> go_value" where
  "lookup d k = (case d of None \<Rightarrow> GNil
                 | Some m \<Rightarrow> (case map_of m k of None \<Rightarrow> GNil | Some v \<Rightarrow> v))"

datatype Operation =
    CreateOperation | ReadOperation | UpdateOperation | PatchOperation
  | DeleteOperation | ListOperation | HelpOperation | AliasLookaheadOperation
  | ResolveRoleOperation | RevokeOperation | RenewOperation | RollbackOperation
  | RotationOperation

text \<open>The storage view is shared by reference; a request carries the reference.\<close>

type_synonym StorageView = nat

record logical_Secret =
  secret_TTL :: Duration
  secret_MaxTTL :: Duration
  secret_Renewable :: bool
  secret_InternalData :: "data option"
  secret_LeaseID :: string

record logical_Auth =
  auth_Policies :: "string list"
  auth_Metadata :: "(string \<times> string) list"
  auth_TTL :: Duration
  auth_Renewable :: bool

record logical_Request =
  req_Operation :: Operation
  req_Path :: string
  req_Storage :: StorageView
  req_Data :: "data option"
  req_Secret :: "logical_Secret option"

record logical_Response =
  resp_Data :: "data option"
  resp_Secret :: "logical_Secret option"
  resp_Auth :: "logical_Auth option"
  resp_Warnings :: "string list"

text \<open>The error of a backend call: the sentinel \<^verbatim>\<open>logical.ErrPermissionDenied\<close> or any
  other error, with its message.\<close>

datatype backend_error = ErrPermissionDenied | OtherError string

fun Error :: "backend_error \<Rightarrow> string" where
  "Error ErrPermissionDenied = ''permission denied''"
| "Error (OtherError m) = m"

text \<open>What happens to the plugin process, in order. The plugin is a process of its own
  with its own state: its answer to a request may depend on everything that happened
  to it before.\<close>

datatype event =
    ProcessStart
  | ProcessKill
  | ProcessWait
  | ClientKill
  | Setup
  | Initialize
  | InvalidateKey string
  | Cleanup
  | Handle logical_Request

type_synonym PluginBackend =
  "event list \<Rightarrow> logical_Request \<Rightarrow> backend_error + logical_Response option"

text \<open>Everything outside the program that it reads or acts on: the clock (the n-th
  reading of \<^verbatim>\<open>time.Now()\<close>), the random source (the n-th byte of
  \<^verbatim>\<open>crypto/rand\<close>) and the trace of what was done to the plugin.\<close>

record world =
  clock :: "nat \<Rightarrow> Time"
  ticks :: nat
  entropy :: "nat \<Rightarrow> 8 word"
  drawn :: nat
  trace :: "event list"

definition time_Now :: "world \<Rightarrow> Time \<times> world" where
  "time_Now w = (clock w (ticks w), w\<lparr>ticks := Suc (ticks w)\<rparr>)"

definition rand_Read :: "nat \<Rightarrow> world \<Rightarrow> 8 word list \<times> world" where
  "rand_Read n w = (map (entropy w) [drawn w ..< drawn w + n], w\<lparr>drawn := drawn w + n\<rparr>)"

definition backend_HandleRequest ::
  "PluginBackend \<Rightarrow> logical_Request \<Rightarrow> world
     \<Rightarrow> (backend_error + logical_Response option) \<times> world" where
  "backend_HandleRequest b req w = (b (trace w) req, w\<lparr>trace := trace w @ [Handle req]\<rparr>)"

text \<open>Library functions the code calls, taken as parameters: \<^verbatim>\<open>json.Unmarshal\<close> into a
  \<^verbatim>\<open>map[string]interface{}\<close> (an error message, or the map, nil for JSON null),
  \<^verbatim>\<open>time.ParseDuration\<close>, \<^verbatim>\<open>strconv.Atoi\<close> (the value, and whether there was no error),
  \<^verbatim>\<open>strings.TrimSpace\<close>, \<^verbatim>\<open>framework.NewOASDocumentFromMap\<close>,
  \<^verbatim>\<open>Time.Format\<close> with the layout \<^verbatim>\<open>20060102150405\<close>, and the result of
  converting a float64 outside the range of int64, which Go leaves to the
  implementation.\<close>

record go_lib =
  json_Unmarshal :: "string \<Rightarrow> string + data option"
  time_ParseDuration :: "string \<Rightarrow> Duration option"
  strconv_Atoi :: "string \<Rightarrow> int \<times> bool"
  strings_TrimSpace :: "string \<Rightarrow> string"
  NewOASDocumentFromMap :: "data \<Rightarrow> string + data"
  time_Format :: "Time \<Rightarrow> string"
  int64_out_of_range :: "rat \<Rightarrow> 64 word"

text \<open>\<^verbatim>\<open>time.Duration(v)\<close> for a float64 \<open>v\<close>.\<close>

definition Duration_of_float :: "go_lib \<Rightarrow> rat \<Rightarrow> Duration" where
  "Duration_of_float lib v =
     (if - (2 ^ 63) \<le> float_trunc v \<and> float_trunc v < 2 ^ 63 then word_of_int (float_trunc v)
      else int64_out_of_range lib v)"

section \<open>The HTTP side\<close>

text \<open>An inbound request: the verb, \<^verbatim>\<open>r.URL.Path\<close>, the values of \<^verbatim>\<open>r.URL.Query()\<close>
  and what \<^verbatim>\<open>io.ReadAll(r.Body)\<close> gives, an error message or the bytes.\<close>

record http_Request =
  Method :: string
  URL_Path :: string
  URL_Query :: "(string \<times> string list) list"
  Body :: "string + string"

text \<open>\<^verbatim>\<open>url.Values.Get\<close>: the first value of the key, or the empty string.\<close>

definition Query_Get :: "http_Request \<Rightarrow> string \<Rightarrow> string" where
  "Query_Get r k = (case map_of (URL_Query r) k of
                      None \<Rightarrow> []
                    | Some vs \<Rightarrow> (case vs of [] \<Rightarrow> [] | v # _ \<Rightarrow> v))"

text \<open>What a handler wrote to its \<^verbatim>\<open>http.ResponseWriter\<close>: the status, the
  Content-Type header when set, and the JSON object encoded into the body, if any.\<close>

record http_Response =
  status :: nat
  content_type :: "string option"
  body :: "(string \<rightharpoonup> go_value) option"

definition StatusOK :: nat where "StatusOK = 200"
definition StatusNoContent :: nat where "StatusNoContent = 204"
definition StatusBadRequest :: nat where "StatusBadRequest = 400"
definition StatusForbidden :: nat where "StatusForbidden = 403"
definition StatusNotFound :: nat where "StatusNotFound = 404"
definition StatusMethodNotAllowed :: nat where "StatusMethodNotAllowed = 405"
definition StatusInternalServerError :: nat where "StatusInternalServerError = 500"
definition StatusServiceUnavailable :: nat where "StatusServiceUnavailable = 503"

definition writeVaultError :: "nat \<Rightarrow> string \<Rightarrow> http_Response" where
  "writeVaultError statusCode message =
     \<lparr>status = statusCode, content_type = Some ''application/json'',
      body = Some [''errors'' \<mapsto> GStrings [message]]\<rparr>"

definition write_json :: "(string \<rightharpoonup> go_value) \<Rightarrow> http_Response" where
  "write_json response =
     \<lparr>status = StatusOK, content_type = Some ''application/json'', body = Some response\<rparr>"

section \<open>The handler and its lease table\<close>

record LeaseInfo =
  LeaseID :: string
  Path :: string
  Data :: "data option"
  Secret :: "logical_Secret option"
  IssueTime :: Time
  ExpireTime :: Time
  Duration :: Duration
  Renewable :: bool

text \<open>The handler's state. Its logger and its two locks play no part in a run of one
  handler at a time and are left out; where the locks matter, the handlers are cut at
  the places where the source locks and unlocks.\<close>

record Handler =
  backend :: "PluginBackend option"
  storage :: StorageView
  mountPath :: string
  leases :: "string \<rightharpoonup> LeaseInfo"

definition NewHandler :: "PluginBackend option \<Rightarrow> StorageView \<Rightarrow> string \<Rightarrow> Handler" where
  "NewHandler b st mp = \<lparr>backend = b, storage = st, mountPath = mp, leases = Map.empty\<rparr>"

definition SetBackend :: "PluginBackend option \<Rightarrow> Handler \<Rightarrow> Handler" where
  "SetBackend b h = h\<lparr>backend := b\<rparr>"

definition generateLeaseID :: "Handler \<Rightarrow> string \<Rightarrow> world \<Rightarrow> string \<times> world" where
  "generateLeaseID h path w =
     (let (bytes, w') = rand_Read 12 w
      in (TrimPrefix (mountPath h) ''/'' @ ''/'' @ path @ ''/'' @ hex_EncodeToString bytes, w'))"

definition generateRequestID :: "world \<Rightarrow> string \<times> world" where
  "generateRequestID w =
     (let (bytes, w') = rand_Read 16 w
      in (hex_EncodeToString (take 4 bytes) @ ''-''
          @ hex_EncodeToString (take 2 (drop 4 bytes)) @ ''-''
          @ hex_EncodeToString (take 2 (drop 6 bytes)) @ ''-''
          @ hex_EncodeToString (take 2 (drop 8 bytes)) @ ''-''
          @ hex_EncodeToString (take 6 (drop 10 bytes)), w'))"

section \<open>HandleRequest\<close>

text \<open>The body is read and decoded for POST and PUT only; an empty body is no data.\<close>

definition read_request_data :: "go_lib \<Rightarrow> http_Request \<Rightarrow> http_Response + data option" where
  "read_request_data lib r =
     (if Method r = ''POST'' \<or> Method r = ''PUT'' then
        (case Body r of
           Inl err \<Rightarrow> Inl (writeVaultError StatusBadRequest (''failed to read body: '' @ err))
         | Inr content \<Rightarrow>
             if 0 < length content then
               (case json_Unmarshal lib content of
                  Inl err \<Rightarrow>
                    Inl (writeVaultError StatusBadRequest (''failed to parse JSON: '' @ err))
                | Inr m \<Rightarrow> Inr m)
             else Inr None)
      else Inr None)"

text \<open>The path given to the backend: without the leading \<^verbatim>\<open>/v1/\<close> and the mount prefix.\<close>

definition request_path :: "Handler \<Rightarrow> http_Request \<Rightarrow> string" where
  "request_path h r = TrimPrefix (TrimPrefix (URL_Path r) ''/v1/'') (mountPath h @ ''/'')"

text \<open>The operation and the path after it: a lifecycle suffix or query parameter first,
  the HTTP verb otherwise; an unknown verb is answered with 405.\<close>

definition resolve_operation ::
  "http_Request \<Rightarrow> string \<Rightarrow> http_Response + Operation \<times> string" where
  "resolve_operation r path =
     (if HasSuffix path ''/revoke'' \<or> Query_Get r ''operation'' = ''revoke'' then
        Inr (RevokeOperation, TrimSuffix path ''/revoke'')
      else if HasSuffix path ''/renew'' \<or> Query_Get r ''operation'' = ''renew'' then
        Inr (RenewOperation, TrimSuffix path ''/renew'')
      else if HasSuffix path ''/rollback'' \<or> Query_Get r ''operation'' = ''rollback'' then
        Inr (RollbackOperation, TrimSuffix path ''/rollback'')
      else if HasSuffix path ''/rotate'' \<or> Query_Get r ''operation'' = ''rotate'' then
        Inr (RotationOperation, TrimSuffix path ''/rotate'')
      else if Method r = ''GET'' then Inr (ReadOperation, path)
      else if Method r = ''POST'' \<or> Method r = ''PUT'' then Inr (UpdateOperation, path)
      else if Method r = ''DELETE'' then Inr (DeleteOperation, path)
      else if Method r = ''LIST'' then Inr (ListOperation, path)
      else Inl (writeVaultError StatusMethodNotAllowed ''unsupported method''))"

definition authData :: "go_lib \<Rightarrow> logical_Auth \<Rightarrow> Time \<Rightarrow> go_value" where
  "authData lib a now =
     GMap [(''client_token'', GString (''mock-token-'' @ time_Format lib now)),
           (''accessor'', GString ''mock-accessor''),
           (''policies'', GStrings (auth_Policies a)),
           (''metadata'', GStringMap (auth_Metadata a)),
           (''lease_duration'', GInt (Seconds_int (auth_TTL a))),
           (''renewable'', GBool (auth_Renewable a))]"

text \<open>A read that returned data gets a lease: the ID, the duration (24 hours unless the
  secret has a positive TTL), the record in the lease table and the three lease fields
  of the envelope. \<^verbatim>\<open>time.Now()\<close> is read once for the issue time and once more for the
  expiry.\<close>

definition mint_lease ::
  "string \<Rightarrow> logical_Response \<Rightarrow> (string \<rightharpoonup> go_value) \<Rightarrow> Handler \<Rightarrow> world
     \<Rightarrow> (string \<rightharpoonup> go_value) \<times> Handler \<times> world" where
  "mint_lease path resp response h w =
     (let (leaseID, w1) = generateLeaseID h path w;
          leaseDuration =
            (case resp_Secret resp of
               None \<Rightarrow> 24 * Hour
             | Some s \<Rightarrow> if 0 <s secret_TTL s then secret_TTL s else 24 * Hour);
          (issued, w2) = time_Now w1;
          (now, w3) = time_Now w2;
          leaseInfo = \<lparr>LeaseID = leaseID, Path = path, Data = resp_Data resp,
                       Secret = resp_Secret resp, IssueTime = issued,
                       ExpireTime = Time_Add now leaseDuration,
                       Duration = leaseDuration, Renewable = True\<rparr>
      in (response(''lease_id'' \<mapsto> GString leaseID,
                   ''lease_duration'' \<mapsto> GInt (Seconds_int leaseDuration),
                   ''renewable'' \<mapsto> GBool True),
          h\<lparr>leases := (leases h)(leaseID \<mapsto> leaseInfo)\<rparr>, w3))"

text \<open>The envelope of a successful call. Nothing is added for a nil response.\<close>

definition build_response ::
  "go_lib \<Rightarrow> Operation \<Rightarrow> string \<Rightarrow> logical_Response option \<Rightarrow> Handler \<Rightarrow> world
     \<Rightarrow> (string \<rightharpoonup> go_value) \<times> Handler \<times> world" where
  "build_response lib operation path resp h w =
     (case resp of
        None \<Rightarrow> (Map.empty, h, w)
      | Some rp \<Rightarrow>
          let (response1, w1) =
                (case resp_Auth rp of
                   None \<Rightarrow> (Map.empty, w)
                 | Some a \<Rightarrow> (let (now, w') = time_Now w
                              in ([''auth'' \<mapsto> authData lib a now], w')));
              (response2, h2, w2) =
                (case resp_Data rp of
                   None \<Rightarrow> (response1, h, w1)
                 | Some d \<Rightarrow>
                     if operation = ReadOperation
                     then mint_lease path rp (response1(''data'' \<mapsto> GMap d)) h w1
                     else (response1(''data'' \<mapsto> GMap d), h, w1));
              response3 =
                (if 0 < length (resp_Warnings rp)
                 then response2(''warnings'' \<mapsto> GStrings (resp_Warnings rp))
                 else response2);
              (requestID, w3) = generateRequestID w2
          in (response3(''request_id'' \<mapsto> GString requestID,
                        ''wrap_info'' \<mapsto> GNil,
                        ''auth'' \<mapsto> GNil,
                        ''mount_type'' \<mapsto> GString (TrimPrefix (mountPath h) ''/'')),
              h2, w3))"

definition HandleRequest ::
  "go_lib \<Rightarrow> http_Request \<Rightarrow> Handler \<Rightarrow> world \<Rightarrow> http_Response \<times> Handler \<times> world" where
  "HandleRequest lib r h w =
     (case backend h of
        None \<Rightarrow> (writeVaultError StatusServiceUnavailable ''plugin not started'', h, w)
      | Some b \<Rightarrow>
          (case read_request_data lib r of
             Inl failed \<Rightarrow> (failed, h, w)
           | Inr requestData \<Rightarrow>
               (case resolve_operation r (request_path h r) of
                  Inl failed \<Rightarrow> (failed, h, w)
                | Inr (operation, path) \<Rightarrow>
                    let req = \<lparr>req_Operation = operation, req_Path = path,
                               req_Storage = storage h, req_Data = requestData,
                               req_Secret = None\<rparr>;
                        (res, w1) = backend_HandleRequest b req w
                    in (case res of
                          Inl err \<Rightarrow>
                            (if err = ErrPermissionDenied
                             then writeVaultError StatusForbidden ''permission denied''
                             else writeVaultError StatusInternalServerError (Error err),
                             h, w1)
                        | Inr resp \<Rightarrow>
                            let (response, h', w2) =
                                  build_response lib operation path resp h w1
                            in (write_json response, h', w2)))))"

section \<open>Lease renewal\<close>

text \<open>The type assertion \<^verbatim>\<open>v.(string)\<close>.\<close>

fun as_string :: "go_value \<Rightarrow> string option" where
  "as_string (GString s) = Some s"
| "as_string _ = None"

text \<open>The increment of a renewal: a float64 counts seconds, a string is a duration or
  else a decimal count of seconds, anything else is zero; zero becomes 24 hours.\<close>

definition renew_increment :: "go_lib \<Rightarrow> data option \<Rightarrow> Duration" where
  "renew_increment lib requestData =
     (let increment =
            (case lookup requestData ''increment'' of
               GFloat v \<Rightarrow> Duration_of_float lib v * Second
             | GString v \<Rightarrow>
                 (case time_ParseDuration lib v of
                    Some parsed \<Rightarrow> parsed
                  | None \<Rightarrow>
                      (let (seconds, ok) = strconv_Atoi lib v
                       in if ok then word_of_int seconds * Second else 0))
             | _ \<Rightarrow> 0)
      in if increment = 0 then 24 * Hour else increment)"

text \<open>A renewal that passed its checks and waits for the backend: the lease it found
  when it held the lease lock, and the expiry it will write.\<close>

record renewal =
  rn_leaseID :: string
  rn_increment :: Duration
  rn_leaseInfo :: LeaseInfo
  rn_newExpireTime :: Time

text \<open>First part of \<^verbatim>\<open>HandleLeaseRenew\<close>, up to the computation of the new expiry. The
  lease table is read under the lease lock, which is released again at once.\<close>

definition renew_begin ::
  "go_lib \<Rightarrow> http_Request \<Rightarrow> Handler \<Rightarrow> world \<Rightarrow> (http_Response + renewal) \<times> world" where
  "renew_begin lib r h w =
     (if Method r \<noteq> ''PUT'' \<and> Method r \<noteq> ''POST'' then
        (Inl (writeVaultError StatusMethodNotAllowed ''method not allowed''), w)
      else
        (case Body r of
           Inl err \<Rightarrow>
             (Inl (writeVaultError StatusBadRequest (''failed to read body: '' @ err)), w)
         | Inr content \<Rightarrow>
             (case (if 0 < length content then json_Unmarshal lib content else Inr None) of
                Inl err \<Rightarrow>
                  (Inl (writeVaultError StatusBadRequest (''failed to parse JSON: '' @ err)), w)
              | Inr requestData \<Rightarrow>
                  (case as_string (lookup requestData ''lease_id'') of
                     None \<Rightarrow> (Inl (writeVaultError StatusBadRequest ''lease_id is required''), w)
                   | Some leaseID \<Rightarrow>
                       if leaseID = [] then
                         (Inl (writeVaultError StatusBadRequest ''lease_id is required''), w)
                       else
                         (let increment = renew_increment lib requestData
                          in case leases h leaseID of
                               None \<Rightarrow>
                                 (Inl (writeVaultError StatusNotFound ''lease not found''), w)
                             | Some leaseInfo \<Rightarrow>
                                 if \<not> Renewable leaseInfo then
                                   (Inl (writeVaultError StatusBadRequest
                                           ''lease is not renewable''), w)
                                 else
                                   (let (now, w1) = time_Now w
                                    in if Time_After now (ExpireTime leaseInfo) then
                                         (Inl (writeVaultError StatusBadRequest
                                                 ''lease has expired''), w1)
                                       else
                                         (let (now', w2) = time_Now w1
                                          in (Inr \<lparr>rn_leaseID = leaseID,
                                                    rn_increment = increment,
                                                    rn_leaseInfo = leaseInfo,
                                                    rn_newExpireTime =
                                                      Time_Add now' increment\<rparr>,
                                              w2))))))))"

text \<open>Second part: the backend, when there is one, is told of the renewal; its error
  ends the renewal with 500. No lock is held.\<close>

definition renew_notify ::
  "renewal \<Rightarrow> Handler \<Rightarrow> world \<Rightarrow> http_Response option \<times> world" where
  "renew_notify rn h w =
     (case backend h of
        None \<Rightarrow> (None, w)
      | Some b \<Rightarrow>
          let renewReq =
                \<lparr>req_Operation = RenewOperation,
                 req_Path = Path (rn_leaseInfo rn),
                 req_Storage = storage h,
                 req_Data =
                   Some [(''lease_id'', GString (rn_leaseID rn)),
                         (''increment'', GInt (Seconds_int (rn_increment rn))),
                         (''issue_time'', GTime (IssueTime (rn_leaseInfo rn)))],
                 req_Secret = Secret (rn_leaseInfo rn)\<rparr>;
              (res, w1) = backend_HandleRequest b renewReq w
          in (case res of
                Inl err \<Rightarrow>
                  (Some (writeVaultError StatusInternalServerError
                           (''failed to renew lease: '' @ Error err)), w1)
              | Inr _ \<Rightarrow> (None, w1)))"

text \<open>Last part: under the lease lock again, the entry of the table is updated through
  \<^verbatim>\<open>h.leases[leaseID]\<close>. When the table has no such entry the pointer is nil and the
  assignment panics: the result is \<open>None\<close>.\<close>

definition renew_commit :: "renewal \<Rightarrow> Handler \<Rightarrow> (http_Response \<times> Handler) option" where
  "renew_commit rn h =
     (case leases h (rn_leaseID rn) of
        None \<Rightarrow> None
      | Some entry \<Rightarrow>
          Some (write_json
                  [''lease_id'' \<mapsto> GString (rn_leaseID rn),
                   ''lease_duration'' \<mapsto> GInt (Seconds_int (rn_increment rn)),
                   ''renewable'' \<mapsto> GBool True,
                   ''data'' \<mapsto> of_data (Data (rn_leaseInfo rn))],
                h\<lparr>leases := (leases h)(rn_leaseID rn \<mapsto>
                       entry\<lparr>ExpireTime := rn_newExpireTime rn,
                             Duration := rn_increment rn\<rparr>)\<rparr>))"

text \<open>The handler run without interruption; \<open>None\<close> when it panics.\<close>

definition HandleLeaseRenew ::
  "go_lib \<Rightarrow> http_Request \<Rightarrow> Handler \<Rightarrow> world
     \<Rightarrow> (http_Response \<times> Handler \<times> world) option" where
  "HandleLeaseRenew lib r h w =
     (case renew_begin lib r h w of
        (Inl rejected, w1) \<Rightarrow> Some (rejected, h, w1)
      | (Inr rn, w1) \<Rightarrow>
          (case renew_notify rn h w1 of
             (Some failed, w2) \<Rightarrow> Some (failed, h, w2)
           | (None, w2) \<Rightarrow>
               (case renew_commit rn h of
                  None \<Rightarrow> None
                | Some (renewed, h') \<Rightarrow> Some (renewed, h', w2))))"

section \<open>Lease revocation\<close>

definition no_content :: http_Response where
  "no_content = \<lparr>status = StatusNoContent, content_type = None, body = None\<rparr>"

definition HandleLeaseRevoke ::
  "go_lib \<Rightarrow> http_Request \<Rightarrow> Handler \<Rightarrow> world \<Rightarrow> http_Response \<times> Handler \<times> world" where
  "HandleLeaseRevoke lib r h w =
     (if Method r \<noteq> ''PUT'' \<and> Method r \<noteq> ''POST'' then
        (writeVaultError StatusMethodNotAllowed ''method not allowed'', h, w)
      else
        (case Body r of
           Inl err \<Rightarrow>
             (writeVaultError StatusBadRequest (''failed to read body: '' @ err), h, w)
         | Inr content \<Rightarrow>
             (case (if 0 < length content then json_Unmarshal lib content else Inr None) of
                Inl err \<Rightarrow>
                  (writeVaultError StatusBadRequest (''failed to parse JSON: '' @ err), h, w)
              | Inr requestData \<Rightarrow>
                  (case as_string (lookup requestData ''lease_id'') of
                     None \<Rightarrow> (writeVaultError StatusBadRequest ''lease_id is required'', h, w)
                   | Some leaseID \<Rightarrow>
                       if leaseID = [] then
                         (writeVaultError StatusBadRequest ''lease_id is required'', h, w)
                       else
                         (case leases h leaseID of
                            None \<Rightarrow>
                              (writeVaultError StatusNotFound ''lease not found'', h, w)
                          | Some leaseInfo \<Rightarrow>
                              let h' = h\<lparr>leases := (leases h)(leaseID := None)\<rparr>
                              in (case backend h' of
                                    None \<Rightarrow> (no_content, h', w)
                                  | Some b \<Rightarrow>
                                      let revokeReq =
                                            \<lparr>req_Operation = RevokeOperation,
                                             req_Path = Path leaseInfo,
                                             req_Storage = storage h',
                                             req_Data =
                                               Some [(''lease_id'', GString leaseID),
                                                     (''issue_time'',
                                                        GTime (IssueTime leaseInfo)),
                                                     (''data'', of_data (Data leaseInfo))],
                                             req_Secret = Secret leaseInfo\<rparr>;
                                          (res, w1) = backend_HandleRequest b revokeReq w
                                      in (no_content, h', w1)))))))"

definition HandleLeaseRevokeByPath ::
  "http_Request \<Rightarrow> Handler \<Rightarrow> world \<Rightarrow> http_Response \<times> Handler \<times> world" where
  "HandleLeaseRevokeByPath r h w =
     (if Method r \<noteq> ''PUT'' \<and> Method r \<noteq> ''POST'' then
        (writeVaultError StatusMethodNotAllowed ''method not allowed'', h, w)
      else
        (let path = TrimPrefix (URL_Path r) ''/v1/sys/leases/revoke/''
         in if path = [] then
              (writeVaultError StatusBadRequest ''lease_id is required in path'', h, w)
            else
              (let leaseID = path
               in case leases h leaseID of
                    None \<Rightarrow> (writeVaultError StatusNotFound ''lease not found'', h, w)
                  | Some leaseInfo \<Rightarrow>
                      let h' = h\<lparr>leases := (leases h)(leaseID := None)\<rparr>
                      in (case backend h' of
                            None \<Rightarrow> (no_content, h', w)
                          | Some b \<Rightarrow>
                              let revokeReq =
                                    \<lparr>req_Operation = RevokeOperation,
                                     req_Path = Path leaseInfo,
                                     req_Storage = storage h',
                                     req_Data =
                                       Some [(''lease_id'', GString leaseID),
                                             (''issue_time'', GTime (IssueTime leaseInfo)),
                                             (''data'', of_data (Data leaseInfo))],
                                     req_Secret = Secret leaseInfo\<rparr>;
                                  (res, w1) = backend_HandleRequest b revokeReq w
                              in (no_content, h', w1)))))"

section \<open>The plugin host: Start and Stop\<close>

datatype Protocol = ProtocolNetRPC | ProtocolGRPC

record ExternalConfig =
  ec_Protocol :: Protocol
  ec_ProtocolVersion :: int
  ec_Addr_Name :: string
  ec_Addr_Net :: string

text \<open>A dispensed object that is a \<^verbatim>\<open>logical.Backend\<close>: the error of its \<^verbatim>\<open>Setup\<close>, if
  any, and its request handling.\<close>

record logical_Backend =
  be_Setup :: "event list \<Rightarrow> string option"
  be_HandleRequest :: PluginBackend

datatype dispensed = IsBackend logical_Backend | NotBackend

text \<open>What \<^verbatim>\<open>Start\<close> meets outside the program: the attach string given on the command
  line (a nil pointer is \<open>None\<close>), the errors of \<^verbatim>\<open>cmd.StdoutPipe()\<close> and \<^verbatim>\<open>cmd.Start()\<close>,
  the lines the scanner reads from the plugin's standard output, and what the go-plugin
  client answers for a connection configuration.\<close>

record host_env =
  attachString :: "string option"
  StdoutPipe :: "string option"
  cmd_Start :: "string option"
  stdout_lines :: "string list"
  client_Client :: "ExternalConfig \<Rightarrow> string option"
  Dispense :: "ExternalConfig \<Rightarrow> string + dispensed"

record PluginHost =
  host_backend :: "logical_Backend option"
  host_client :: "ExternalConfig option"
  pluginCmd :: "string option"
  host_storage :: StorageView
  pluginPath :: string
  config :: "(string \<times> string) list"
  host_mountPath :: string
  oasDoc :: "data option"
  handler :: Handler

definition NewPluginHost ::
  "string \<Rightarrow> (string \<times> string) list \<Rightarrow> string \<Rightarrow> StorageView \<Rightarrow> PluginHost" where
  "NewPluginHost path cfg mount st =
     \<lparr>host_backend = None, host_client = None, pluginCmd = None, host_storage = st,
      pluginPath = path, config = cfg, host_mountPath = mount, oasDoc = None,
      handler = NewHandler None st mount\<rparr>"

definition record_event :: "event \<Rightarrow> world \<Rightarrow> world" where
  "record_event e w = w\<lparr>trace := trace w @ [e]\<rparr>"

text \<open>The fields of a descriptor: split at \<^verbatim>\<open>|\<close> after one trailing \<^verbatim>\<open>|\<close> is removed.\<close>

definition descriptor_parts :: "string \<Rightarrow> string list" where
  "descriptor_parts s = Split (TrimSuffix s ''|'') (CHR ''|'')"

text \<open>The connection configuration read from the fields; used once there are five.\<close>

definition external_config :: "go_lib \<Rightarrow> string list \<Rightarrow> ExternalConfig" where
  "external_config lib parts =
     \<lparr>ec_Protocol = (if parts ! 4 = ''grpc'' then ProtocolGRPC else ProtocolNetRPC),
      ec_ProtocolVersion = fst (strconv_Atoi lib (parts ! 1)),
      ec_Addr_Name = parts ! 3,
      ec_Addr_Net = parts ! 2\<rparr>"

text \<open>Discovery: a help request to the backend; the document is kept when the answer
  has one as a map (the only form an answer decoded from the wire can take). Called by
  \<^verbatim>\<open>Start\<close> once the backend is set.\<close>

definition listPluginPaths :: "go_lib \<Rightarrow> PluginHost \<Rightarrow> world \<Rightarrow> PluginHost \<times> world" where
  "listPluginPaths lib h w =
     (case host_backend h of
        None \<Rightarrow> (h, w)
      | Some b \<Rightarrow>
          let req = \<lparr>req_Operation = HelpOperation, req_Path = [],
                     req_Storage = host_storage h,
                     req_Data = Some [(''requestResponsePrefix'', GString [])],
                     req_Secret = None\<rparr>;
              (res, w1) = backend_HandleRequest (be_HandleRequest b) req w
          in (case res of
                Inl err \<Rightarrow> (h, w1)
              | Inr None \<Rightarrow> (h, w1)
              | Inr (Some resp) \<Rightarrow>
                  (case resp_Data resp of
                     None \<Rightarrow> (h, w1)
                   | Some d \<Rightarrow>
                       (case lookup (Some d) ''openapi'' of
                          GMap v \<Rightarrow>
                            (case NewOASDocumentFromMap lib v of
                               Inl err \<Rightarrow> (h, w1)
                             | Inr doc \<Rightarrow> (h\<lparr>oasDoc := Some doc\<rparr>, w1))
                        | _ \<Rightarrow> (h, w1)))))"

text \<open>From the client configuration to the published backend: every failure kills the
  client and returns the error.\<close>

definition connect ::
  "go_lib \<Rightarrow> host_env \<Rightarrow> ExternalConfig \<Rightarrow> PluginHost \<Rightarrow> world
     \<Rightarrow> string option \<times> PluginHost \<times> world" where
  "connect lib env ec h w =
     (case client_Client env ec of
        Some err \<Rightarrow> (Some (''failed to get RPC client: '' @ err), h, record_event ClientKill w)
      | None \<Rightarrow>
          (case Dispense env ec of
             Inl err \<Rightarrow>
               (Some (''failed to dispense plugin: '' @ err), h, record_event ClientKill w)
           | Inr NotBackend \<Rightarrow>
               (Some ''dispensed plugin is not a logical.Backend'', h,
                record_event ClientKill w)
           | Inr (IsBackend b) \<Rightarrow>
               (case be_Setup b (trace w) of
                  Some err \<Rightarrow>
                    (Some (''failed to setup backend: '' @ err), h,
                     record_event ClientKill (record_event Setup w))
                | None \<Rightarrow>
                    let h1 = h\<lparr>host_backend := Some b, host_client := Some ec,
                               handler := SetBackend (Some (be_HandleRequest b)) (handler h)\<rparr>;
                        w1 = record_event Initialize (record_event Setup w);
                        (h2, w2) = listPluginPaths lib h1 w1
                    in (None, h2, w2))))"

text \<open>Attach mode: the descriptor is the attach string.\<close>

definition attach_plugin ::
  "go_lib \<Rightarrow> host_env \<Rightarrow> string \<Rightarrow> PluginHost \<Rightarrow> world
     \<Rightarrow> string option \<times> PluginHost \<times> world" where
  "attach_plugin lib env s h w =
     (let parts = descriptor_parts s
      in if length parts < 5 then
           (Some (''invalid attach string format, expected '' @ [CHR 0x27]
                  @ ''version|maxversion|network|socket|protocol|'' @ [CHR 0x27]), h, w)
         else connect lib env (external_config lib parts) h w)"

text \<open>Launch mode: the process is started and its output scanned for the first line
  with \<^verbatim>\<open>|unix|\<close> or \<^verbatim>\<open>|tcp|\<close>; that line, trimmed, is the descriptor.\<close>

definition launch_plugin ::
  "go_lib \<Rightarrow> host_env \<Rightarrow> PluginHost \<Rightarrow> world \<Rightarrow> string option \<times> PluginHost \<times> world" where
  "launch_plugin lib env h w =
     (case StdoutPipe env of
        Some err \<Rightarrow> (Some (''failed to create stdout pipe: '' @ err), h, w)
      | None \<Rightarrow>
          (case cmd_Start env of
             Some err \<Rightarrow> (Some (''failed to start plugin process: '' @ err), h, w)
           | None \<Rightarrow>
               let w1 = record_event ProcessStart w;
                   reattachInfo =
                     (case find (\<lambda>line. Contains line ''|unix|'' \<or> Contains line ''|tcp|'')
                             (stdout_lines env) of
                        None \<Rightarrow> []
                      | Some line \<Rightarrow> strings_TrimSpace lib line)
               in if reattachInfo = [] then
                    (Some ''failed to get reattach info from plugin'', h,
                     record_event ProcessKill w1)
                  else
                    (let parts = descriptor_parts reattachInfo
                     in if length parts < 5 then
                          (Some (''invalid reattach string format: '' @ reattachInfo), h,
                           record_event ProcessKill w1)
                        else connect lib env (external_config lib parts)
                               (h\<lparr>pluginCmd := Some (pluginPath h)\<rparr>) w1)))"

definition Start ::
  "go_lib \<Rightarrow> host_env \<Rightarrow> PluginHost \<Rightarrow> world \<Rightarrow> string option \<times> PluginHost \<times> world" where
  "Start lib env h w =
     (if host_backend h \<noteq> None then (Some ''plugin already started'', h, w)
      else
        (case attachString env of
           None \<Rightarrow> launch_plugin lib env h w
         | Some s \<Rightarrow> if s \<noteq> [] then attach_plugin lib env s h w
                     else launch_plugin lib env h w))"

definition Stop :: "PluginHost \<Rightarrow> world \<Rightarrow> PluginHost \<times> world" where
  "Stop h w =
     (let stopped = (if host_backend h \<noteq> None then [InvalidateKey ''shutdown'', Cleanup] else [])
                    @ (if host_client h \<noteq> None then [ClientKill] else [])
                    @ (if pluginCmd h \<noteq> None then [ProcessKill, ProcessWait] else [])
      in (h\<lparr>host_backend := None, host_client := None, pluginCmd := None,
            handler := SetBackend None (handler h)\<rparr>,
          w\<lparr>trace := trace w @ stopped\<rparr>))"

section \<open>The operation table as the specification words it\<close>

text \<open>The lifecycle operations in the order they are checked, and the table of verbs.\<close>

definition lifecycle_operations :: "(string \<times> Operation) list" where
  "lifecycle_operations =
     [(''revoke'', RevokeOperation), (''renew'', RenewOperation),
      (''rollback'', RollbackOperation), (''rotate'', RotationOperation)]"

definition verb_operations :: "(string \<times> Operation) list" where
  "verb_operations =
     [(''GET'', ReadOperation), (''POST'', UpdateOperation), (''PUT'', UpdateOperation),
      (''DELETE'', DeleteOperation), (''LIST'', ListOperation)]"

text \<open>A lifecycle operation is asked for by the suffix of the path or by the query
  parameter \<^verbatim>\<open>operation\<close>.\<close>

definition lifecycle_match :: "http_Request \<Rightarrow> string \<Rightarrow> string \<times> Operation \<Rightarrow> bool" where
  "lifecycle_match r path =
     (\<lambda>(name, op). HasSuffix path (''/'' @ name) \<or> Query_Get r ''operation'' = name)"

text \<open>The first lifecycle operation asked for, with its suffix removed from the path;
  else the operation of the verb; else nothing (method not allowed).\<close>

definition spec_operation :: "http_Request \<Rightarrow> string \<Rightarrow> (Operation \<times> string) option" where
  "spec_operation r path =
     (case find (lifecycle_match r path) lifecycle_operations of
        Some (name, op) \<Rightarrow> Some (op, TrimSuffix path (''/'' @ name))
      | None \<Rightarrow> (case map_of verb_operations (Method r) of
                   Some op \<Rightarrow> Some (op, path)
                 | None \<Rightarrow> None))"

section \<open>A concrete host, used to exercise the theorems\<close>

definition quoted :: "string \<Rightarrow> string" where
  "quoted s = [CHR 0x22] @ s @ [CHR 0x22]"

definition example_lease_id :: string where
  "example_lease_id = ''plugin/creds/test/000102030405060708090a0b''"

text \<open>The JSON document with the one member \<^verbatim>\<open>lease_id\<close>.\<close>

definition lease_id_body :: "string \<Rightarrow> string" where
  "lease_id_body leaseID = ''{'' @ quoted ''lease_id'' @ '':'' @ quoted leaseID @ ''}''"

text \<open>The JSON document with the members \<^verbatim>\<open>lease_id\<close> and \<^verbatim>\<open>increment\<close>, the latter
  given as JSON text.\<close>

definition lease_increment_body :: "string \<Rightarrow> string \<Rightarrow> string" where
  "lease_increment_body leaseID increment =
     ''{'' @ quoted ''lease_id'' @ '':'' @ quoted leaseID @ '',''
     @ quoted ''increment'' @ '':'' @ increment @ ''}''"

text \<open>A stand-in for the libraries that knows the documents used below.\<close>

definition example_lib :: go_lib where
  "example_lib =
     \<lparr>json_Unmarshal =
        (\<lambda>s. if s = ''{}'' then Inr (Some [])
              else if s = lease_id_body example_lease_id
              then Inr (Some [(''lease_id'', GString example_lease_id)])
              else if s = lease_increment_body example_lease_id ''60''
              then Inr (Some [(''lease_id'', GString example_lease_id),
                              (''increment'', GFloat 60)])
              else if s = lease_increment_body example_lease_id (quoted ''1h'')
              then Inr (Some [(''lease_id'', GString example_lease_id),
                              (''increment'', GString ''1h'')])
              else Inl ''invalid character''),
      time_ParseDuration = (\<lambda>s. if s = ''1h'' then Some Hour else None),
      strconv_Atoi = (\<lambda>s. if s = ''60'' then (60, True) else if s = ''4'' then (4, True)
                          else (0, False)),
      strings_TrimSpace = (\<lambda>s. s),
      NewOASDocumentFromMap = (\<lambda>m. Inr m),
      time_Format = (\<lambda>t. ''20251031120000''),
      int64_out_of_range = (\<lambda>v. 2 ^ 63)\<rparr>"

definition example_data :: data where
  "example_data = [(''password'', GString ''s3cret'')]"

text \<open>A backend that answers every read with the same data and everything else with
  no response.\<close>

definition example_backend :: PluginBackend where
  "example_backend history req =
     (if req_Operation req = ReadOperation
      then Inr (Some \<lparr>resp_Data = Some example_data, resp_Secret = None,
                       resp_Auth = None, resp_Warnings = []\<rparr>)
      else Inr None)"

definition example_handler :: Handler where
  "example_handler = SetBackend (Some example_backend) (NewHandler None 0 ''plugin'')"

definition example_world :: world where
  "example_world =
     \<lparr>clock = (\<lambda>n. 1000 * int n), ticks = 0, entropy = (\<lambda>n. word_of_nat n), drawn = 0,
      trace = []\<rparr>"

definition example_get :: http_Request where
  "example_get =
     \<lparr>Method = ''GET'', URL_Path = ''/v1/plugin/creds/test'', URL_Query = [],
      Body = Inr []\<rparr>"

text \<open>The parts of a handler's result, and a member of the JSON object it wrote.\<close>

abbreviation response_of :: "http_Response \<times> Handler \<times> world \<Rightarrow> http_Response" where
  "response_of res \<equiv> fst res"

abbreviation handler_of :: "http_Response \<times> Handler \<times> world \<Rightarrow> Handler" where
  "handler_of res \<equiv> fst (snd res)"

abbreviation world_of :: "http_Response \<times> Handler \<times> world \<Rightarrow> world" where
  "world_of res \<equiv> snd (snd res)"

definition member :: "http_Response \<Rightarrow> string \<Rightarrow> go_value option" where
  "member resp k = (case body resp of None \<Rightarrow> None | Some object \<Rightarrow> object k)"

text \<open>The request HandleRequest sends for an operation and a path.\<close>

definition forwarded_request ::
  "Handler \<Rightarrow> Operation \<Rightarrow> string \<Rightarrow> data option \<Rightarrow> logical_Request" where
  "forwarded_request h op p d =
     \<lparr>req_Operation = op, req_Path = p, req_Storage = storage h, req_Data = d,
      req_Secret = None\<rparr>"

section \<open>The lease of a read, as the specification words it\<close>

text \<open>The duration of a new lease: 24 hours unless the secret of the response has a
  positive time to live.\<close>

definition lease_duration_for :: "logical_Response \<Rightarrow> Duration" where
  "lease_duration_for rp =
     (case resp_Secret rp of
        None \<Rightarrow> 24 * Hour
      | Some s \<Rightarrow> if 0 < sint (secret_TTL s) then secret_TTL s else 24 * Hour)"

text \<open>The ID of a new lease: the mount, the path and, in hexadecimal, the next twelve
  bytes of the random source.\<close>

definition lease_id_for :: "Handler \<Rightarrow> string \<Rightarrow> world \<Rightarrow> string" where
  "lease_id_for h path w =
     TrimPrefix (mountPath h) ''/'' @ ''/'' @ path @ ''/''
     @ hex_EncodeToString (map (entropy w) [drawn w ..< drawn w + 12])"

text \<open>The reading of the clock that becomes the issue time: the next one, or the one
  after it when the response has an auth payload (whose token reads the clock first).\<close>

definition first_reading :: "logical_Response \<Rightarrow> world \<Rightarrow> nat" where
  "first_reading rp w = ticks w + (if resp_Auth rp = None then 0 else 1)"

section \<open>Renewal and revocation, as the specification words them\<close>

text \<open>The lease a body asks for: its member \<^verbatim>\<open>lease_id\<close> when that is a string and not
  empty.\<close>

definition requested_lease :: "data option \<Rightarrow> string option" where
  "requested_lease d =
     (case as_string (lookup d ''lease_id'') of
        None \<Rightarrow> None
      | Some leaseID \<Rightarrow> if leaseID = [] then None else Some leaseID)"

text \<open>The renewal request: the lease's path and secret, and the renewal's metadata.\<close>

definition renewal_request ::
  "Handler \<Rightarrow> string \<Rightarrow> Duration \<Rightarrow> LeaseInfo \<Rightarrow> logical_Request" where
  "renewal_request h leaseID increment l =
     \<lparr>req_Operation = RenewOperation, req_Path = Path l, req_Storage = storage h,
      req_Data = Some [(''lease_id'', GString leaseID),
                       (''increment'', GInt (Seconds_int increment)),
                       (''issue_time'', GTime (IssueTime l))],
      req_Secret = Secret l\<rparr>"

text \<open>The revocation request: the lease's path, secret and data.\<close>

definition revocation_request :: "Handler \<Rightarrow> string \<Rightarrow> LeaseInfo \<Rightarrow> logical_Request" where
  "revocation_request h leaseID l =
     \<lparr>req_Operation = RevokeOperation, req_Path = Path l, req_Storage = storage h,
      req_Data = Some [(''lease_id'', GString leaseID),
                       (''issue_time'', GTime (IssueTime l)),
                       (''data'', of_data (Data l))],
      req_Secret = Secret l\<rparr>"

text \<open>The lease of the example read, a handler that holds it, and requests to renew
  and to revoke it.\<close>

definition example_lease :: LeaseInfo where
  "example_lease =
     \<lparr>LeaseID = example_lease_id, Path = ''creds/test'', Data = Some example_data,
      Secret = None, IssueTime = 0, ExpireTime = 86400000001000,
      Duration = 24 * Hour, Renewable = True\<rparr>"

definition leased_handler :: Handler where
  "leased_handler = example_handler\<lparr>leases := [example_lease_id \<mapsto> example_lease]\<rparr>"

definition example_renew :: http_Request where
  "example_renew =
     \<lparr>Method = ''PUT'', URL_Path = ''/v1/sys/leases/renew'', URL_Query = [],
      Body = Inr (lease_id_body example_lease_id)\<rparr>"

definition example_revoke :: http_Request where
  "example_revoke =
     \<lparr>Method = ''PUT'', URL_Path = ''/v1/sys/leases/revoke'', URL_Query = [],
      Body = Inr (lease_id_body example_lease_id)\<rparr>"

definition example_revoke_by_path :: http_Request where
  "example_revoke_by_path =
     \<lparr>Method = ''PUT'', URL_Path = ''/v1/sys/leases/revoke/'' @ example_lease_id,
      URL_Query = [], Body = Inr []\<rparr>"

text \<open>What a renewal writes: the answer, and the lease with its new expiry and
  duration.\<close>

definition renewed_response :: "string \<Rightarrow> Duration \<Rightarrow> LeaseInfo \<Rightarrow> http_Response" where
  "renewed_response leaseID increment l =
     write_json [''lease_id'' \<mapsto> GString leaseID,
                 ''lease_duration'' \<mapsto> GInt (Seconds_int increment),
                 ''renewable'' \<mapsto> GBool True,
                 ''data'' \<mapsto> of_data (Data l)]"

definition renewed_lease :: "Time \<Rightarrow> Duration \<Rightarrow> LeaseInfo \<Rightarrow> LeaseInfo" where
  "renewed_lease now increment l =
     l\<lparr>ExpireTime := now + sint increment, Duration := increment\<rparr>"


definition later_world :: world where
  "later_world = example_world\<lparr>clock := (\<lambda>n. 1000000000 + 1000 * int n)\<rparr>"


text \<open>The status a lease handler answered with and the lease it left under an ID, when
  it did not panic.\<close>

definition status_after :: "(http_Response \<times> Handler \<times> world) option \<Rightarrow> nat option" where
  "status_after res = (case res of None \<Rightarrow> None | Some (resp, h', w') \<Rightarrow> Some (status resp))"

definition lease_after ::
  "(http_Response \<times> Handler \<times> world) option \<Rightarrow> string \<Rightarrow> LeaseInfo option" where
  "lease_after res leaseID = (case res of None \<Rightarrow> None | Some (resp, h', w') \<Rightarrow> leases h' leaseID)"

definition member_after ::
  "(http_Response \<times> Handler \<times> world) option \<Rightarrow> string \<Rightarrow> go_value option" where
  "member_after res k = (case res of None \<Rightarrow> None | Some (resp, h', w') \<Rightarrow> member resp k)"

text \<open>The example lease renewed with no increment one second after its issue, and
  renewed once more right after that.\<close>

definition renewed_once :: "(http_Response \<times> Handler \<times> world) option" where
  "renewed_once = HandleLeaseRenew example_lib example_renew leased_handler later_world"

definition renewed_twice :: "(http_Response \<times> Handler \<times> world) option" where
  "renewed_twice =
     (case renewed_once of
        None \<Rightarrow> None
      | Some (resp, h', w') \<Rightarrow> HandleLeaseRenew example_lib example_renew h' w')"

text \<open>Renewals of the example lease by 60 seconds and by one hour.\<close>

definition example_renew_60 :: http_Request where
  "example_renew_60 =
     \<lparr>Method = ''POST'', URL_Path = ''/v1/sys/leases/renew'', URL_Query = [],
      Body = Inr (lease_increment_body example_lease_id ''60'')\<rparr>"

definition example_renew_1h :: http_Request where
  "example_renew_1h =
     \<lparr>Method = ''POST'', URL_Path = ''/v1/sys/leases/renew'', URL_Query = [],
      Body = Inr (lease_increment_body example_lease_id (quoted ''1h''))\<rparr>"

text \<open>The world after a revocation told the backend, when there is one, of the lease.
  What the backend answers does not enter.\<close>

definition notified :: "Handler \<Rightarrow> string \<Rightarrow> LeaseInfo \<Rightarrow> world \<Rightarrow> world" where
  "notified h leaseID l w =
     (case backend h of
        None \<Rightarrow> w
      | Some b \<Rightarrow> w\<lparr>trace := trace w @ [Handle (revocation_request h leaseID l)]\<rparr>)"

text \<open>A backend whose every call fails, and the leased handler with it.\<close>

definition failing_backend :: PluginBackend where
  "failing_backend history req = Inl (OtherError ''connection refused'')"

definition failing_handler :: Handler where
  "failing_handler = SetBackend (Some failing_backend) leased_handler"

section \<open>The envelope, as the specification words it\<close>

text \<open>The request ID made from the sixteen bytes of the random source that follow the
  first \<open>n\<close>.\<close>

definition request_id_at :: "world \<Rightarrow> nat \<Rightarrow> string" where
  "request_id_at w n = fst (generateRequestID (w\<lparr>drawn := n\<rparr>))"

text \<open>Whether an answered request gets a lease: a read whose response has data.\<close>

definition mints :: "Operation \<Rightarrow> logical_Response \<Rightarrow> bool" where
  "mints op rp = (op = ReadOperation \<and> resp_Data rp \<noteq> None)"

text \<open>The names an envelope can have as members.\<close>

definition envelope_members :: "string list" where
  "envelope_members =
     [''data'', ''warnings'', ''request_id'', ''wrap_info'', ''auth'', ''mount_type'',
      ''lease_id'', ''lease_duration'', ''renewable'']"

text \<open>A backend that answers every request with a secret and no data, and a handler
  with it.\<close>

definition example_secret :: logical_Secret where
  "example_secret =
     \<lparr>secret_TTL = Hour, secret_MaxTTL = 24 * Hour, secret_Renewable = True,
      secret_InternalData = Some [(''secret_type'', GString ''creds'')],
      secret_LeaseID = []\<rparr>"

definition secret_response :: logical_Response where
  "secret_response =
     \<lparr>resp_Data = None, resp_Secret = Some example_secret, resp_Auth = None,
      resp_Warnings = [''rotation is due'']\<rparr>"

definition secret_backend :: PluginBackend where
  "secret_backend history req = Inr (Some secret_response)"

definition secret_handler :: Handler where
  "secret_handler = SetBackend (Some secret_backend) (NewHandler None 0 ''plugin'')"

section \<open>Start, as the specification words it\<close>

text \<open>The descriptor captured in launch mode: the first line of the plugin's output
  with \<^verbatim>\<open>|unix|\<close> or \<^verbatim>\<open>|tcp|\<close>, trimmed; empty when there is none.\<close>

definition captured :: "go_lib \<Rightarrow> host_env \<Rightarrow> string" where
  "captured lib env =
     (case find (\<lambda>line. Contains line ''|unix|'' \<or> Contains line ''|tcp|'') (stdout_lines env) of
        None \<Rightarrow> []
      | Some line \<Rightarrow> strings_TrimSpace lib line)"

text \<open>Whether Start runs in launch mode: no attach string, or an empty one.\<close>

definition launches :: "host_env \<Rightarrow> bool" where
  "launches env = (attachString env = None \<or> attachString env = Some [])"

text \<open>A plugin that sets up without error, and a host that attaches to it. The attach
  string is as read from the terminal, with its newline.\<close>

definition example_plugin :: logical_Backend where
  "example_plugin = \<lparr>be_Setup = (\<lambda>history. None), be_HandleRequest = example_backend\<rparr>"

definition typed_attach_string :: string where
  "typed_attach_string = ''1|4|unix|/tmp/plugin.sock|grpc|'' @ [CHR 0x0A]"

definition example_env :: host_env where
  "example_env =
     \<lparr>attachString = Some typed_attach_string, StdoutPipe = None, cmd_Start = None,
      stdout_lines = [], client_Client = (\<lambda>ec. None),
      Dispense = (\<lambda>ec. Inr (IsBackend example_plugin))\<rparr>"

definition example_host :: PluginHost where
  "example_host = NewPluginHost ''/usr/local/bin/plugin'' [] ''plugin'' 0"

definition started :: "string option \<times> PluginHost \<times> world" where
  "started = Start example_lib example_env example_host example_world"

definition started_host :: PluginHost where
  "started_host = fst (snd started)"

definition started_world :: world where
  "started_world = snd (snd started)"

text \<open>A request with a verb outside the table.\<close>

definition example_patch :: http_Request where
  "example_patch =
     \<lparr>Method = ''PATCH'', URL_Path = ''/v1/plugin/creds/test'', URL_Query = [],
      Body = Inr []\<rparr>"

text \<open>An attach string of four fields, and a plugin that prints a descriptor of four
  fields when launched.\<close>

definition short_env :: host_env where
  "short_env = example_env\<lparr>attachString := Some ''1|4|unix|/tmp/plugin.sock''\<rparr>"

definition short_launch_env :: host_env where
  "short_launch_env =
     example_env\<lparr>attachString := None,
                 stdout_lines := [''plugin starting'', ''1|4|unix|/tmp/plugin.sock'']\<rparr>"

section \<open>A renewal with a revocation in between\<close>

text \<open>The lease lock is held by a renewal only while it looks the lease up and, later,
  while it updates the table; a revocation holds it while it looks up and deletes. So
  another request's revocation can run after the renewal's lookup and before its update.
  This is that schedule: the first part of the renewal \<open>r\<close>, the whole revocation
  \<open>r'\<close>, then the rest of the renewal; \<open>None\<close> when the renewal panics.\<close>

definition renewal_cut_by_revocation ::
  "go_lib \<Rightarrow> http_Request \<Rightarrow> http_Request \<Rightarrow> Handler \<Rightarrow> world
     \<Rightarrow> (http_Response \<times> Handler \<times> world) option" where
  "renewal_cut_by_revocation lib r r' h w =
     (case renew_begin lib r h w of
        (Inl rejected, w1) \<Rightarrow>
          (let (revoked, h2, w2) = HandleLeaseRevoke lib r' h w1
           in Some (rejected, h2, w2))
      | (Inr rn, w1) \<Rightarrow>
          (let (revoked, h2, w2) = HandleLeaseRevoke lib r' h w1
           in case renew_notify rn h2 w2 of
                (Some failed, w3) \<Rightarrow> Some (failed, h2, w3)
              | (None, w3) \<Rightarrow>
                  (case renew_commit rn h2 of
                     None \<Rightarrow> None
                   | Some (renewed, h3) \<Rightarrow> Some (renewed, h3, w3))))"

section \<open>The effects of the parts of HandleRequest on the plugin's trace\<close>

lemma resolve_operation_spec:
  "resolve_operation r path =
     (case spec_operation r path of
        Some found \<Rightarrow> Inr found
      | None \<Rightarrow> Inl (writeVaultError StatusMethodNotAllowed ''unsupported method''))"
  by (simp add: resolve_operation_def spec_operation_def lifecycle_operations_def
      verb_operations_def lifecycle_match_def)

lemma trace_time_Now [simp]: "trace (snd (time_Now w)) = trace w"
  by (simp add: time_Now_def)

lemma trace_rand_Read [simp]: "trace (snd (rand_Read n w)) = trace w"
  by (simp add: rand_Read_def)

lemma trace_generateLeaseID [simp]: "trace (snd (generateLeaseID h p w)) = trace w"
  by (simp add: generateLeaseID_def split_beta)

lemma trace_generateRequestID [simp]: "trace (snd (generateRequestID w)) = trace w"
  by (simp add: generateRequestID_def split_beta)

lemma trace_mint_lease [simp]: "trace (snd (snd (mint_lease p rp e h w))) = trace w"
  by (simp add: mint_lease_def split_beta Let_def)

lemma trace_build_response [simp]:
  "trace (snd (snd (build_response lib op p resp h w))) = trace w"
  by (simp add: build_response_def split_beta Let_def split: option.split)

lemma HandleRequest_forwarded:
  assumes "backend h = Some b" and "read_request_data lib r = Inr d"
    and "resolve_operation r (request_path h r) = Inr (op, p)"
  shows "trace (snd (snd (HandleRequest lib r h w))) =
         trace w @ [Handle \<lparr>req_Operation = op, req_Path = p, req_Storage = storage h,
                            req_Data = d, req_Secret = None\<rparr>]"
  using assms
  by (simp add: HandleRequest_def backend_HandleRequest_def split_beta Let_def split: sum.split)

section \<open>Operation resolution\<close>

text \<open>Claim C2. For a request that reaches operation resolution (a backend is set and
  the body, if the verb has one, was read and decoded), the request sent to the backend
  has the operation and path of the specification's table: the first lifecycle
  operation named by the path's suffix or by the query parameter, with that suffix
  removed from the path, else the operation of the verb (GET read, POST and PUT update,
  DELETE delete, LIST list) with the path as it is; for any other verb nothing is sent
  and the answer is 405. The path is the URL path without \<^verbatim>\<open>/v1/\<close> and the mount
  prefix.\<close>

theorem operation_resolution:
  assumes "backend h = Some b" and "read_request_data lib r = Inr d"
  shows "case spec_operation r (request_path h r) of
           Some (op, p) \<Rightarrow>
             trace (snd (snd (HandleRequest lib r h w))) =
               trace w @ [Handle \<lparr>req_Operation = op, req_Path = p, req_Storage = storage h,
                                  req_Data = d, req_Secret = None\<rparr>]
         | None \<Rightarrow>
             HandleRequest lib r h w =
               (writeVaultError StatusMethodNotAllowed ''unsupported method'', h, w)"
proof (cases "spec_operation r (request_path h r)")
  case None
  then have "resolve_operation r (request_path h r) =
             Inl (writeVaultError StatusMethodNotAllowed ''unsupported method'')"
    by (simp add: resolve_operation_spec)
  with assms None show ?thesis
    by (simp add: HandleRequest_def)
next
  case (Some found)
  obtain op p where found: "found = (op, p)" by (cases found)
  with Some have "resolve_operation r (request_path h r) = Inr (op, p)"
    by (simp add: resolve_operation_spec)
  from HandleRequest_forwarded [OF assms this] Some found show ?thesis
    by simp
qed

lemmas example_defs = example_handler_def example_get_def example_world_def example_lib_def
  SetBackend_def NewHandler_def

lemmas string_defs = HasPrefix_def TrimPrefix_def HasSuffix_def TrimSuffix_def

theorem operation_resolution_witness:
  "backend example_handler = Some example_backend
   \<and> read_request_data example_lib example_get = Inr None
   \<and> trace (snd (snd (HandleRequest example_lib example_get example_handler example_world))) =
       [Handle \<lparr>req_Operation = ReadOperation, req_Path = ''creds/test'', req_Storage = 0,
                req_Data = None, req_Secret = None\<rparr>]"
  using operation_resolution [of example_handler example_backend example_lib example_get None
      example_world]
  by (simp add: example_defs string_defs read_request_data_def spec_operation_def
      lifecycle_operations_def verb_operations_def lifecycle_match_def request_path_def
      Query_Get_def)

lemma HandleRequest_answered:
  assumes "backend h = Some b" and "read_request_data lib r = Inr d"
    and "spec_operation r (request_path h r) = Some (op, p)"
    and "b (trace w) (forwarded_request h op p d) = Inr answer"
  shows "HandleRequest lib r h w =
         (case build_response lib op p answer h
                 (w\<lparr>trace := trace w @ [Handle (forwarded_request h op p d)]\<rparr>) of
            (response, h', w') \<Rightarrow> (write_json response, h', w'))"
  using assms
  by (simp add: HandleRequest_def backend_HandleRequest_def resolve_operation_spec
      forwarded_request_def Let_def)

lemmas build_defs = build_response_def mint_lease_def generateLeaseID_def rand_Read_def
      time_Now_def Time_Add_def Let_def split_beta lease_duration_for_def lease_id_for_def
      first_reading_def word_sless_alt

lemma build_response_read_leases:
  assumes "resp_Data rp = Some dat"
  shows "leases (fst (snd (build_response lib ReadOperation path (Some rp) h w))) =
     (leases h)(lease_id_for h path w \<mapsto>
              \<lparr>LeaseID = lease_id_for h path w, Path = path, Data = Some dat,
               Secret = resp_Secret rp,
               IssueTime = clock w (first_reading rp w),
               ExpireTime = clock w (Suc (first_reading rp w)) + sint (lease_duration_for rp),
               Duration = lease_duration_for rp, Renewable = True\<rparr>)"
  using assms
  by (cases "resp_Auth rp"; cases "resp_Secret rp") (simp_all add: build_defs)

lemma build_response_read_members:
  assumes "resp_Data rp = Some dat"
  shows "fst (build_response lib ReadOperation path (Some rp) h w) ''lease_id'' =
           Some (GString (lease_id_for h path w))"
    and "fst (build_response lib ReadOperation path (Some rp) h w) ''lease_duration'' =
           Some (GInt (Seconds_int (lease_duration_for rp)))"
    and "fst (build_response lib ReadOperation path (Some rp) h w) ''renewable'' =
           Some (GBool True)"
  using assms
  by (cases "resp_Auth rp"; cases "resp_Secret rp"; simp add: build_defs)+

lemma member_write_json [simp]: "member (write_json response) k = response k"
  by (simp add: member_def write_json_def)

lemma status_write_json [simp]: "status (write_json response) = StatusOK"
  by (simp add: write_json_def)

section \<open>Leases of reads\<close>

text \<open>Claim C3. A request that is handled to the end, whose operation resolves to read
  and whose backend response carries data, gets a lease. Its ID is the mount, the path
  and a random suffix; its duration is 24 hours unless the secret of the response has a
  positive time to live. The lease table gains, under that ID, the record with the path,
  the data, the secret, the issue time (the clock when it is read), the expiry (the clock
  when it is read next, plus the duration), the duration, and renewable set; nothing else
  in the table changes. The members \<^verbatim>\<open>lease_id\<close>, \<^verbatim>\<open>lease_duration\<close> (whole seconds) and
  \<^verbatim>\<open>renewable\<close> (true) are in the JSON object of the answer, whose status is 200. (The
  lock around the table's update is outside this sequential model.)\<close>

theorem read_mints_lease:
  assumes "backend h = Some b"
    and "read_request_data lib r = Inr d"
    and "spec_operation r (request_path h r) = Some (ReadOperation, path)"
    and "b (trace w) (forwarded_request h ReadOperation path d) = Inr (Some rp)"
    and "resp_Data rp = Some dat"
  shows "status (response_of (HandleRequest lib r h w)) = StatusOK
       \<and> leases (handler_of (HandleRequest lib r h w)) =
           (leases h)(lease_id_for h path w \<mapsto>
              \<lparr>LeaseID = lease_id_for h path w, Path = path, Data = Some dat,
               Secret = resp_Secret rp,
               IssueTime = clock w (first_reading rp w),
               ExpireTime = clock w (Suc (first_reading rp w)) + sint (lease_duration_for rp),
               Duration = lease_duration_for rp, Renewable = True\<rparr>)
       \<and> member (response_of (HandleRequest lib r h w)) ''lease_id'' =
           Some (GString (lease_id_for h path w))
       \<and> member (response_of (HandleRequest lib r h w)) ''lease_duration'' =
           Some (GInt (Seconds_int (lease_duration_for rp)))
       \<and> member (response_of (HandleRequest lib r h w)) ''renewable'' = Some (GBool True)"
proof -
  let ?w = "w\<lparr>trace := trace w @ [Handle (forwarded_request h ReadOperation path d)]\<rparr>"
  let ?built = "build_response lib ReadOperation path (Some rp) h ?w"
  have run: "HandleRequest lib r h w =
             (write_json (fst ?built), fst (snd ?built), snd (snd ?built))"
    using HandleRequest_answered [OF assms(1-4)] by (simp add: split_beta)
  have same: "lease_id_for h path ?w = lease_id_for h path w"
    "first_reading rp ?w = first_reading rp w" "clock ?w = clock w"
    by (simp_all add: lease_id_for_def first_reading_def)
  show ?thesis
    using build_response_read_leases [OF assms(5), of lib path h ?w]
      build_response_read_members [OF assms(5), of lib path h ?w]
    by (simp add: run same)
qed

lemma Seconds_int_day: "Seconds_int (24 * Hour) = 86400"
  by code_simp

lemma sint_day: "sint (24 * Hour) = 86400000000000"
  by (simp add: Hour_def Second_def)

lemma example_lease_id_for:
  "lease_id_for example_handler ''creds/test'' example_world = example_lease_id"
  by code_simp

lemma example_get_operation:
  "spec_operation example_get (request_path example_handler example_get) =
     Some (ReadOperation, ''creds/test'')"
  by (simp add: example_defs string_defs spec_operation_def
      lifecycle_operations_def verb_operations_def lifecycle_match_def request_path_def
      Query_Get_def)

theorem read_mints_lease_witness:
  "leases (handler_of (HandleRequest example_lib example_get example_handler example_world))
     example_lease_id =
     Some \<lparr>LeaseID = example_lease_id, Path = ''creds/test'', Data = Some example_data,
           Secret = None, IssueTime = 0, ExpireTime = 86400000001000,
           Duration = 24 * Hour, Renewable = True\<rparr>
   \<and> member (response_of (HandleRequest example_lib example_get example_handler example_world))
       ''lease_id'' = Some (GString example_lease_id)
   \<and> member (response_of (HandleRequest example_lib example_get example_handler example_world))
       ''lease_duration'' = Some (GInt 86400)"
  using read_mints_lease [of example_handler example_backend example_lib example_get None
      "''creds/test''" example_world
      "\<lparr>resp_Data = Some example_data, resp_Secret = None, resp_Auth = None,
        resp_Warnings = []\<rparr>" example_data]
  by (simp add: example_get_operation example_lease_id_for Seconds_int_day sint_day
      example_backend_def forwarded_request_def lease_duration_for_def first_reading_def
      read_request_data_def)
     (simp add: example_defs)

section \<open>Lease renewal\<close>

lemma renew_begin_decoded:
  assumes "Method r = ''PUT'' \<or> Method r = ''POST''"
    and "Body r = Inr content"
    and "(if 0 < length content then json_Unmarshal lib content else Inr None) = Inr d"
  shows "renew_begin lib r h w =
    (case requested_lease d of
       None \<Rightarrow> (Inl (writeVaultError StatusBadRequest ''lease_id is required''), w)
     | Some leaseID \<Rightarrow>
        (case leases h leaseID of
           None \<Rightarrow> (Inl (writeVaultError StatusNotFound ''lease not found''), w)
         | Some l \<Rightarrow>
            if \<not> Renewable l then
              (Inl (writeVaultError StatusBadRequest ''lease is not renewable''), w)
            else if ExpireTime l < clock w (ticks w) then
              (Inl (writeVaultError StatusBadRequest ''lease has expired''),
               w\<lparr>ticks := Suc (ticks w)\<rparr>)
            else
              (Inr \<lparr>rn_leaseID = leaseID, rn_increment = renew_increment lib d,
                    rn_leaseInfo = l,
                    rn_newExpireTime = clock w (Suc (ticks w)) + sint (renew_increment lib d)\<rparr>,
               w\<lparr>ticks := Suc (Suc (ticks w))\<rparr>)))"
proof -
  have verb: "\<not> (Method r \<noteq> ''PUT'' \<and> Method r \<noteq> ''POST'')"
    using assms(1) by blast
  show ?thesis
    unfolding renew_begin_def if_not_P [OF verb] assms(2) sum.case assms(3)
    by (simp add: requested_lease_def time_Now_def Time_After_def Time_Add_def Let_def
        split: option.split)
qed

text \<open>The renewal of a lease that passed the checks: told to the backend when there is
  one, then committed.\<close>

lemma renew_notify_commit:
  assumes "leases h leaseID = Some l"
  shows "(case renew_notify \<lparr>rn_leaseID = leaseID, rn_increment = inc, rn_leaseInfo = l,
                            rn_newExpireTime = t\<rparr> h w of
            (Some failed, w2) \<Rightarrow> Some (failed, h, w2)
          | (None, w2) \<Rightarrow>
              (case renew_commit \<lparr>rn_leaseID = leaseID, rn_increment = inc, rn_leaseInfo = l,
                                  rn_newExpireTime = t\<rparr> h of
                 None \<Rightarrow> None
               | Some (renewed, h') \<Rightarrow> Some (renewed, h', w2))) =
    (case backend h of
       None \<Rightarrow>
         Some (renewed_response leaseID inc l,
               h\<lparr>leases := (leases h)(leaseID \<mapsto> l\<lparr>ExpireTime := t, Duration := inc\<rparr>)\<rparr>, w)
     | Some b \<Rightarrow>
        (case b (trace w) (renewal_request h leaseID inc l) of
           Inl err \<Rightarrow>
             Some (writeVaultError StatusInternalServerError
                     (''failed to renew lease: '' @ Error err), h,
                   w\<lparr>trace := trace w @ [Handle (renewal_request h leaseID inc l)]\<rparr>)
         | Inr answer \<Rightarrow>
             Some (renewed_response leaseID inc l,
                   h\<lparr>leases := (leases h)(leaseID \<mapsto> l\<lparr>ExpireTime := t, Duration := inc\<rparr>)\<rparr>,
                   w\<lparr>trace := trace w @ [Handle (renewal_request h leaseID inc l)]\<rparr>)))"
  using assms
  by (simp add: renew_notify_def renew_commit_def backend_HandleRequest_def
      renewal_request_def renewed_response_def Let_def split: option.split sum.split)


lemma HandleLeaseRenew_decoded:
  assumes "Method r = ''PUT'' \<or> Method r = ''POST''"
    and "Body r = Inr content"
    and "(if 0 < length content then json_Unmarshal lib content else Inr None) = Inr d"
  shows "HandleLeaseRenew lib r h w =
    (case requested_lease d of
       None \<Rightarrow> Some (writeVaultError StatusBadRequest ''lease_id is required'', h, w)
     | Some leaseID \<Rightarrow>
        (case leases h leaseID of
           None \<Rightarrow> Some (writeVaultError StatusNotFound ''lease not found'', h, w)
         | Some l \<Rightarrow>
            if \<not> Renewable l then
              Some (writeVaultError StatusBadRequest ''lease is not renewable'', h, w)
            else if ExpireTime l < clock w (ticks w) then
              Some (writeVaultError StatusBadRequest ''lease has expired'', h,
                    w\<lparr>ticks := Suc (ticks w)\<rparr>)
            else
              (case backend h of
                 None \<Rightarrow>
                   Some (renewed_response leaseID (renew_increment lib d) l,
                         h\<lparr>leases := (leases h)(leaseID \<mapsto>
                              renewed_lease (clock w (Suc (ticks w))) (renew_increment lib d) l)\<rparr>,
                         w\<lparr>ticks := Suc (Suc (ticks w))\<rparr>)
               | Some b \<Rightarrow>
                  (case b (trace w) (renewal_request h leaseID (renew_increment lib d) l) of
                     Inl err \<Rightarrow>
                       Some (writeVaultError StatusInternalServerError
                               (''failed to renew lease: '' @ Error err), h,
                             w\<lparr>ticks := Suc (Suc (ticks w)),
                               trace := trace w @ [Handle (renewal_request h leaseID
                                                     (renew_increment lib d) l)]\<rparr>)
                   | Inr answer \<Rightarrow>
                       Some (renewed_response leaseID (renew_increment lib d) l,
                             h\<lparr>leases := (leases h)(leaseID \<mapsto>
                                  renewed_lease (clock w (Suc (ticks w)))
                                    (renew_increment lib d) l)\<rparr>,
                             w\<lparr>ticks := Suc (Suc (ticks w)),
                               trace := trace w @ [Handle (renewal_request h leaseID
                                                     (renew_increment lib d) l)]\<rparr>)))))"
proof (cases "requested_lease d")
  case None
  then show ?thesis
    by (simp add: HandleLeaseRenew_def renew_begin_decoded [OF assms])
next
  case (Some leaseID)
  show ?thesis
  proof (cases "leases h leaseID")
    case None
    with Some show ?thesis
      by (simp add: HandleLeaseRenew_def renew_begin_decoded [OF assms])
  next
    case (Some l)
    note found = \<open>requested_lease d = Some leaseID\<close> Some
    show ?thesis
    proof (cases "\<not> Renewable l \<or> ExpireTime l < clock w (ticks w)")
      case True
      with found show ?thesis
        by (auto simp add: HandleLeaseRenew_def renew_begin_decoded [OF assms])
    next
      case False
      with found show ?thesis
        by (simp add: HandleLeaseRenew_def renew_begin_decoded [OF assms]
            renew_notify_commit [OF Some] renewed_lease_def
            split: option.split sum.split)
    qed
  qed
qed

lemma status_writeVaultError [simp]: "status (writeVaultError code m) = code"
  by (simp add: writeVaultError_def)

lemma status_distinct [simp]:
  "StatusBadRequest \<noteq> StatusOK" "StatusNotFound \<noteq> StatusOK"
  "StatusInternalServerError \<noteq> StatusOK" "StatusMethodNotAllowed \<noteq> StatusOK"
  by (simp_all add: StatusBadRequest_def StatusOK_def StatusNotFound_def
      StatusInternalServerError_def StatusMethodNotAllowed_def)



lemma decode_lease_id_body:
  "json_Unmarshal example_lib (lease_id_body example_lease_id) =
     Inr (Some [(''lease_id'', GString example_lease_id)])"
  "lease_id_body example_lease_id \<noteq> []"
  by (simp_all add: example_lib_def lease_id_body_def quoted_def)

lemma requested_example_lease:
  "requested_lease (Some [(''lease_id'', GString example_lease_id)]) = Some example_lease_id"
  "requested_lease (Some []) = None"
  by (simp_all add: requested_lease_def lookup_def example_lease_id_def)

lemma default_increment:
  "renew_increment lib (Some [(''lease_id'', GString leaseID)]) = 24 * Hour"
  by (simp add: renew_increment_def lookup_def)


section \<open>What a renewal does to the expiry\<close>

lemma example_renew_decoded:
  "Method example_renew = ''PUT'' \<or> Method example_renew = ''POST''"
  "Body example_renew = Inr (lease_id_body example_lease_id)"
  "(if 0 < length (lease_id_body example_lease_id)
    then json_Unmarshal example_lib (lease_id_body example_lease_id) else Inr None) =
   Inr (Some [(''lease_id'', GString example_lease_id)])"
  by (simp_all add: example_renew_def decode_lease_id_body)

lemmas example_renew_run = HandleLeaseRenew_decoded [OF example_renew_decoded]

lemma renewed_once_eq:
  "renewed_once =
     Some (renewed_response example_lease_id (24 * Hour) example_lease,
           leased_handler\<lparr>leases := [example_lease_id \<mapsto>
              example_lease\<lparr>ExpireTime := 86401000001000\<rparr>]\<rparr>,
           later_world\<lparr>ticks := 2,
             trace := [Handle (renewal_request leased_handler example_lease_id (24 * Hour)
                                 example_lease)]\<rparr>)"
  by (simp add: renewed_once_def example_renew_run requested_example_lease default_increment)
     (simp add: leased_handler_def example_handler_def SetBackend_def NewHandler_def
      example_lease_def later_world_def example_world_def example_backend_def
      renewal_request_def renewed_lease_def sint_day numeral_2_eq_2 default_increment)

text \<open>Claim C6 as stated fails: the example lease, issued at time 0 to expire 24 hours
  later, is renewed with no increment when the clock stands one second later, and once
  more right after. The first renewal moves the expiry by one second and the second by
  two more microseconds, not by the default duration of 24 hours each.\<close>

theorem renewal_delta_counterexample:
  "map_option ExpireTime (lease_after renewed_once example_lease_id) = Some 86401000001000
   \<and> map_option ExpireTime (lease_after renewed_twice example_lease_id) = Some 86401000003000
   \<and> ExpireTime example_lease = 86400000001000
   \<and> sint (24 * Hour) = 86400000000000"
  by (simp add: renewed_twice_def renewed_once_eq lease_after_def example_renew_run
      requested_example_lease default_increment sint_day)
     (simp add: leased_handler_def example_handler_def SetBackend_def NewHandler_def
      example_lease_def later_world_def example_world_def example_backend_def
      renewal_request_def renewed_lease_def sint_day default_increment)


lemma sint_seconds:
  assumes "1 \<le> n" and "n \<le> 9223372036"
  shows "sint (word_of_int n * Second :: Duration) = n * 1000000000"
    and "(word_of_int n * Second :: Duration) \<noteq> 0"
proof -
  have eq: "(word_of_int n * Second :: Duration) = word_of_int (n * 1000000000)"
    by (simp add: Second_def)
  have range: "- (2 ^ 63) \<le> n * 1000000000" "n * 1000000000 < 2 ^ 63"
    using assms by simp_all
  have "sint (word_of_int (n * 1000000000) :: Duration) =
        signed_take_bit (LENGTH(64) - 1) (n * 1000000000)"
    by (rule sint_sbintrunc')
  also have "\<dots> = n * 1000000000"
    using range by (simp add: signed_take_bit_int_eq_self)
  finally have "sint (word_of_int (n * 1000000000) :: Duration) = n * 1000000000" .
  with eq show s: "sint (word_of_int n * Second :: Duration) = n * 1000000000"
    by simp
  show "(word_of_int n * Second :: Duration) \<noteq> 0"
  proof
    assume "(word_of_int n * Second :: Duration) = 0"
    then have "sint (word_of_int n * Second :: Duration) = 0" by simp
    with s assms show False by simp
  qed
qed

lemma renew_increment_cases:
  "lookup d ''increment'' = GNil \<Longrightarrow> renew_increment lib d = 24 * Hour"
  "lookup d ''increment'' = GFloat v \<Longrightarrow> 1 \<le> float_trunc v \<Longrightarrow> float_trunc v \<le> 9223372036
     \<Longrightarrow> sint (renew_increment lib d) = float_trunc v * 1000000000"
  "lookup d ''increment'' = GFloat v \<Longrightarrow> float_trunc v = 0 \<Longrightarrow> renew_increment lib d = 24 * Hour"
  "lookup d ''increment'' = GString s \<Longrightarrow> time_ParseDuration lib s = Some p
     \<Longrightarrow> renew_increment lib d = (if p = 0 then 24 * Hour else p)"
  "lookup d ''increment'' = GString s \<Longrightarrow> time_ParseDuration lib s = None
     \<Longrightarrow> strconv_Atoi lib s = (n, True) \<Longrightarrow> 1 \<le> n \<Longrightarrow> n \<le> 9223372036
     \<Longrightarrow> sint (renew_increment lib d) = n * 1000000000"
  "lookup d ''increment'' = GString s \<Longrightarrow> time_ParseDuration lib s = None
     \<Longrightarrow> strconv_Atoi lib s = (n, False) \<Longrightarrow> renew_increment lib d = 24 * Hour"
  by (simp_all add: renew_increment_def Duration_of_float_def sint_seconds)


lemma after_Some [simp]:
  "status_after (Some (resp, h', w')) = Some (status resp)"
  "lease_after (Some (resp, h', w')) leaseID = leases h' leaseID"
  "member_after (Some (resp, h', w')) k = member resp k"
  by (simp_all add: status_after_def lease_after_def member_after_def)

lemma member_renewed_response [simp]:
  "member (renewed_response leaseID inc l) ''lease_duration'' = Some (GInt (Seconds_int inc))"
  by (simp add: renewed_response_def)

lemma status_renewed_response [simp]: "status (renewed_response leaseID inc l) = StatusOK"
  by (simp add: renewed_response_def)

lemma renewed_when_OK:
  assumes "Method r = ''PUT'' \<or> Method r = ''POST''"
    and "Body r = Inr content"
    and "(if 0 < length content then json_Unmarshal lib content else Inr None) = Inr d"
    and "requested_lease d = Some leaseID"
    and "leases h leaseID = Some l"
    and "status_after (HandleLeaseRenew lib r h w) = Some StatusOK"
  shows "lease_after (HandleLeaseRenew lib r h w) leaseID =
           Some (renewed_lease (clock w (Suc (ticks w))) (renew_increment lib d) l)
         \<and> member_after (HandleLeaseRenew lib r h w) ''lease_duration'' =
           Some (GInt (Seconds_int (renew_increment lib d)))"
proof -
  note run = HandleLeaseRenew_decoded [OF assms(1-3), of h w]
  show ?thesis
  proof (cases "\<not> Renewable l \<or> ExpireTime l < clock w (ticks w)")
    case True
    with assms(4-6) show ?thesis
      by (auto simp add: run)
  next
    case False
    show ?thesis
    proof (cases "backend h")
      case None
      with False assms(4-6) show ?thesis by (simp add: run)
    next
      case (Some b)
      with False assms(4-6) show ?thesis
        by (cases "b (trace w) (renewal_request h leaseID (renew_increment lib d) l)")
           (simp_all add: run)
    qed
  qed
qed

text \<open>Claim C6, amended. For every successful renewal (a PUT or POST with a decoded body
  naming a stored lease, answered 200), the lease's expiry becomes the time of the
  renewal (the clock as read for it) plus the increment and its duration becomes the
  increment, whatever the expiry was before; the answer's \<^verbatim>\<open>lease_duration\<close> is the
  increment in whole seconds. The increment is 24 hours when none is given or when the
  number given is zero; a number counts seconds; a string is a duration, or else a
  decimal count of seconds, and a zero duration is 24 hours. So each renewal with the
  same increment leaves the same duration, counted from its own time.\<close>

theorem renewal_sets_expiry:
  assumes "Method r = ''PUT'' \<or> Method r = ''POST''"
    and "Body r = Inr content"
    and "(if 0 < length content then json_Unmarshal lib content else Inr None) = Inr d"
    and "requested_lease d = Some leaseID"
    and "leases h leaseID = Some l"
    and "status_after (HandleLeaseRenew lib r h w) = Some StatusOK"
  shows "lease_after (HandleLeaseRenew lib r h w) leaseID =
           Some (renewed_lease (clock w (Suc (ticks w))) (renew_increment lib d) l)
       \<and> member_after (HandleLeaseRenew lib r h w) ''lease_duration'' =
           Some (GInt (Seconds_int (renew_increment lib d)))
       \<and> (lookup d ''increment'' = GNil \<longrightarrow> renew_increment lib d = 24 * Hour)
       \<and> (lookup d ''increment'' = GFloat v \<and> float_trunc v = 0 \<longrightarrow>
            renew_increment lib d = 24 * Hour)
       \<and> (lookup d ''increment'' = GFloat v \<and> 1 \<le> float_trunc v
            \<and> float_trunc v \<le> 9223372036 \<longrightarrow>
            sint (renew_increment lib d) = float_trunc v * 1000000000)
       \<and> (lookup d ''increment'' = GString s \<and> time_ParseDuration lib s = Some p \<longrightarrow>
            renew_increment lib d = (if p = 0 then 24 * Hour else p))
       \<and> (lookup d ''increment'' = GString s \<and> time_ParseDuration lib s = None
            \<and> strconv_Atoi lib s = (n, True) \<and> 1 \<le> n \<and> n \<le> 9223372036 \<longrightarrow>
            sint (renew_increment lib d) = n * 1000000000)"
  using renewed_when_OK [OF assms] renew_increment_cases [where d = d and lib = lib]
  by blast


lemma example_renew_60_decoded:
  "Method example_renew_60 = ''PUT'' \<or> Method example_renew_60 = ''POST''"
  "Body example_renew_60 = Inr (lease_increment_body example_lease_id ''60'')"
  "(if 0 < length (lease_increment_body example_lease_id ''60'')
    then json_Unmarshal example_lib (lease_increment_body example_lease_id ''60'')
    else Inr None) =
   Inr (Some [(''lease_id'', GString example_lease_id), (''increment'', GFloat 60)])"
  by (simp_all add: example_renew_60_def example_lib_def lease_increment_body_def
      lease_id_body_def quoted_def)

lemma example_renew_1h_decoded:
  "Method example_renew_1h = ''PUT'' \<or> Method example_renew_1h = ''POST''"
  "Body example_renew_1h = Inr (lease_increment_body example_lease_id (quoted ''1h''))"
  "(if 0 < length (lease_increment_body example_lease_id (quoted ''1h''))
    then json_Unmarshal example_lib (lease_increment_body example_lease_id (quoted ''1h''))
    else Inr None) =
   Inr (Some [(''lease_id'', GString example_lease_id), (''increment'', GString ''1h'')])"
  by (simp_all add: example_renew_1h_def example_lib_def lease_increment_body_def
      lease_id_body_def quoted_def)

lemma requested_with_increment:
  "requested_lease (Some [(''lease_id'', GString example_lease_id), (''increment'', v)]) =
     Some example_lease_id"
  by (simp add: requested_lease_def lookup_def example_lease_id_def)

lemma example_increments:
  "renew_increment example_lib
     (Some [(''lease_id'', GString example_lease_id), (''increment'', GFloat 60)]) = 60 * Second"
  "renew_increment example_lib
     (Some [(''lease_id'', GString example_lease_id), (''increment'', GString ''1h'')]) = Hour"
  by (simp_all add: renew_increment_def lookup_def Duration_of_float_def float_trunc_def
      example_lib_def Second_def Hour_def)

lemma sint_example_increments:
  "sint (60 * Second) = 60000000000" "sint Hour = 3600000000000"
  by (simp_all add: Second_def Hour_def)

lemmas leased_defs = leased_handler_def example_handler_def SetBackend_def NewHandler_def
  example_lease_def later_world_def example_world_def example_backend_def
  renewal_request_def renewed_lease_def

theorem renewal_sets_expiry_witness:
  "lease_after (HandleLeaseRenew example_lib example_renew leased_handler later_world)
     example_lease_id =
     Some (example_lease\<lparr>ExpireTime := 86401000001000, Duration := 24 * Hour\<rparr>)
   \<and> lease_after (HandleLeaseRenew example_lib example_renew_60 leased_handler later_world)
       example_lease_id =
     Some (example_lease\<lparr>ExpireTime := 61000001000, Duration := 60 * Second\<rparr>)
   \<and> lease_after (HandleLeaseRenew example_lib example_renew_1h leased_handler later_world)
       example_lease_id =
     Some (example_lease\<lparr>ExpireTime := 3601000001000, Duration := Hour\<rparr>)"
  using
    renewal_sets_expiry [OF example_renew_decoded, where leaseID = example_lease_id
      and h = leased_handler and l = example_lease and w = later_world]
    renewal_sets_expiry [OF example_renew_60_decoded, where leaseID = example_lease_id
      and h = leased_handler and l = example_lease and w = later_world]
    renewal_sets_expiry [OF example_renew_1h_decoded, where leaseID = example_lease_id
      and h = leased_handler and l = example_lease and w = later_world]
  by (simp add: requested_example_lease requested_with_increment default_increment
      example_increments sint_example_increments sint_day
      HandleLeaseRenew_decoded [OF example_renew_decoded]
      HandleLeaseRenew_decoded [OF example_renew_60_decoded]
      HandleLeaseRenew_decoded [OF example_renew_1h_decoded])
     (simp add: leased_defs sint_example_increments sint_day)

section \<open>Lease revocation\<close>

text \<open>What a revocation does once the lease ID is known.\<close>

lemma HandleLeaseRevoke_decoded:
  assumes "Method r = ''PUT'' \<or> Method r = ''POST''"
    and "Body r = Inr content"
    and "(if 0 < length content then json_Unmarshal lib content else Inr None) = Inr d"
  shows "HandleLeaseRevoke lib r h w =
    (case requested_lease d of
       None \<Rightarrow> (writeVaultError StatusBadRequest ''lease_id is required'', h, w)
     | Some leaseID \<Rightarrow>
        (case leases h leaseID of
           None \<Rightarrow> (writeVaultError StatusNotFound ''lease not found'', h, w)
         | Some l \<Rightarrow>
            (no_content, h\<lparr>leases := (leases h)(leaseID := None)\<rparr>,
             (case backend h of
                None \<Rightarrow> w
              | Some b \<Rightarrow> w\<lparr>trace := trace w @ [Handle (revocation_request h leaseID l)]\<rparr>))))"
proof -
  have verb: "\<not> (Method r \<noteq> ''PUT'' \<and> Method r \<noteq> ''POST'')"
    using assms(1) by blast
  show ?thesis
    unfolding HandleLeaseRevoke_def if_not_P [OF verb] assms(2) sum.case assms(3)
    by (simp add: requested_lease_def backend_HandleRequest_def revocation_request_def
        Let_def split: option.split)
qed

lemma HandleLeaseRevokeByPath_remainder:
  assumes "Method r = ''PUT'' \<or> Method r = ''POST''"
    and "TrimPrefix (URL_Path r) ''/v1/sys/leases/revoke/'' = leaseID"
  shows "HandleLeaseRevokeByPath r h w =
    (if leaseID = [] then
       (writeVaultError StatusBadRequest ''lease_id is required in path'', h, w)
     else
        (case leases h leaseID of
           None \<Rightarrow> (writeVaultError StatusNotFound ''lease not found'', h, w)
         | Some l \<Rightarrow>
            (no_content, h\<lparr>leases := (leases h)(leaseID := None)\<rparr>,
             (case backend h of
                None \<Rightarrow> w
              | Some b \<Rightarrow> w\<lparr>trace := trace w @ [Handle (revocation_request h leaseID l)]\<rparr>))))"
proof -
  have verb: "\<not> (Method r \<noteq> ''PUT'' \<and> Method r \<noteq> ''POST'')"
    using assms(1) by blast
  show ?thesis
    unfolding HandleLeaseRevokeByPath_def if_not_P [OF verb] assms(2)
    by (simp add: backend_HandleRequest_def revocation_request_def
        Let_def split: option.split)
qed


lemma status_no_content [simp]: "status no_content = StatusNoContent"
  by (simp add: no_content_def)

lemma revoked_again:
  "backend (h\<lparr>leases := m\<rparr>) = backend h"
  "leases (h\<lparr>leases := m\<rparr>) = m"
  by simp_all

text \<open>Claim C5. Both forms of revocation (the lease ID in the body, or as the rest of the
  URL path) answer 400 when the ID is missing and 404 when no such lease is stored, and
  change nothing then. Otherwise the record is removed from the table, the backend (when
  one is set) is sent one revoke request with the stored path, secret and data, and the
  answer is 204, whatever the backend answers to the request. Revoking the same ID
  again, in the state the first revocation left, is answered 404.\<close>

theorem revocation_commits_then_notifies:
  assumes "Method r = ''PUT'' \<or> Method r = ''POST''"
    and "Body r = Inr content"
    and "(if 0 < length content then json_Unmarshal lib content else Inr None) = Inr d"
    and "Method r' = ''PUT'' \<or> Method r' = ''POST''"
    and "TrimPrefix (URL_Path r') ''/v1/sys/leases/revoke/'' = remainder"
  shows "(requested_lease d = None \<longrightarrow>
            HandleLeaseRevoke lib r h w =
              (writeVaultError StatusBadRequest ''lease_id is required'', h, w))
       \<and> (remainder = [] \<longrightarrow>
            HandleLeaseRevokeByPath r' h w =
              (writeVaultError StatusBadRequest ''lease_id is required in path'', h, w))
       \<and> (requested_lease d = Some leaseID \<and> leases h leaseID = None \<longrightarrow>
            HandleLeaseRevoke lib r h w =
              (writeVaultError StatusNotFound ''lease not found'', h, w))
       \<and> (remainder = leaseID \<and> leaseID \<noteq> [] \<and> leases h leaseID = None \<longrightarrow>
            HandleLeaseRevokeByPath r' h w =
              (writeVaultError StatusNotFound ''lease not found'', h, w))
       \<and> (requested_lease d = Some leaseID \<and> leases h leaseID = Some l \<longrightarrow>
            HandleLeaseRevoke lib r h w =
              (no_content, h\<lparr>leases := (leases h)(leaseID := None)\<rparr>, notified h leaseID l w)
            \<and> status (response_of (HandleLeaseRevoke lib r h w)) = StatusNoContent
            \<and> status (response_of (HandleLeaseRevoke lib r
                  (handler_of (HandleLeaseRevoke lib r h w))
                  (world_of (HandleLeaseRevoke lib r h w)))) = StatusNotFound)
       \<and> (remainder = leaseID \<and> leaseID \<noteq> [] \<and> leases h leaseID = Some l \<longrightarrow>
            HandleLeaseRevokeByPath r' h w =
              (no_content, h\<lparr>leases := (leases h)(leaseID := None)\<rparr>, notified h leaseID l w)
            \<and> status (response_of (HandleLeaseRevokeByPath r' h w)) = StatusNoContent
            \<and> status (response_of (HandleLeaseRevokeByPath r'
                  (handler_of (HandleLeaseRevokeByPath r' h w))
                  (world_of (HandleLeaseRevokeByPath r' h w)))) = StatusNotFound)"
  by (auto simp add: HandleLeaseRevoke_decoded [OF assms(1-3)]
      HandleLeaseRevokeByPath_remainder [OF assms(4,5)] notified_def)


lemma example_revoke_decoded:
  "Method example_revoke = ''PUT'' \<or> Method example_revoke = ''POST''"
  "Body example_revoke = Inr (lease_id_body example_lease_id)"
  "(if 0 < length (lease_id_body example_lease_id)
    then json_Unmarshal example_lib (lease_id_body example_lease_id) else Inr None) =
   Inr (Some [(''lease_id'', GString example_lease_id)])"
  by (simp_all add: example_revoke_def decode_lease_id_body)

lemma example_revoke_by_path_remainder:
  "Method example_revoke_by_path = ''PUT'' \<or> Method example_revoke_by_path = ''POST''"
  "TrimPrefix (URL_Path example_revoke_by_path) ''/v1/sys/leases/revoke/'' = example_lease_id"
  by (simp_all add: example_revoke_by_path_def TrimPrefix_def HasPrefix_def)

lemma example_lease_id_not_empty: "example_lease_id \<noteq> []"
  by (simp add: example_lease_id_def)

lemma failing_handler_facts:
  "leases failing_handler example_lease_id = Some example_lease"
  "backend failing_handler = Some failing_backend"
  "trace example_world = []"
  by (simp_all add: failing_handler_def leased_handler_def SetBackend_def example_world_def)

theorem revocation_commits_then_notifies_witness:
  "status (response_of (HandleLeaseRevoke example_lib example_revoke failing_handler
      example_world)) = StatusNoContent
   \<and> leases (handler_of (HandleLeaseRevoke example_lib example_revoke failing_handler
      example_world)) example_lease_id = None
   \<and> trace (world_of (HandleLeaseRevoke example_lib example_revoke failing_handler
      example_world)) = [Handle (revocation_request failing_handler example_lease_id example_lease)]
   \<and> status (response_of (HandleLeaseRevoke example_lib example_revoke
        (handler_of (HandleLeaseRevoke example_lib example_revoke failing_handler example_world))
        (world_of (HandleLeaseRevoke example_lib example_revoke failing_handler example_world))))
      = StatusNotFound
   \<and> status (response_of (HandleLeaseRevokeByPath example_revoke_by_path failing_handler
      example_world)) = StatusNoContent
   \<and> status (response_of (HandleLeaseRevokeByPath example_revoke_by_path
        (handler_of (HandleLeaseRevokeByPath example_revoke_by_path failing_handler example_world))
        (world_of (HandleLeaseRevokeByPath example_revoke_by_path failing_handler example_world))))
      = StatusNotFound"
  using revocation_commits_then_notifies [OF example_revoke_decoded example_revoke_by_path_remainder,
      where leaseID = example_lease_id and h = failing_handler and l = example_lease
        and w = example_world]
  by (clarsimp simp add: requested_example_lease example_lease_id_not_empty
      failing_handler_facts notified_def)


lemma TrimPrefix_append [simp]: "TrimPrefix (p @ s) p = s"
  by (simp add: TrimPrefix_def HasPrefix_def)

text \<open>Claim C10. For a request with the lease ID in its body and a request of the same
  verb with the same ID as the rest of its URL path, HandleLeaseRevoke and
  HandleLeaseRevokeByPath answer with the same status and leave the same handler (so
  the same lease table) and the same world (so the same requests sent to the backend),
  from any handler state and world.\<close>

theorem revocation_entry_points_agree:
  assumes "Method r' = Method r"
    and "Body r = Inr content"
    and "(if 0 < length content then json_Unmarshal lib content else Inr None) = Inr d"
    and "as_string (lookup d ''lease_id'') = Some leaseID"
    and "URL_Path r' = ''/v1/sys/leases/revoke/'' @ leaseID"
  shows "status (response_of (HandleLeaseRevoke lib r h w)) =
           status (response_of (HandleLeaseRevokeByPath r' h w))
       \<and> handler_of (HandleLeaseRevoke lib r h w) = handler_of (HandleLeaseRevokeByPath r' h w)
       \<and> world_of (HandleLeaseRevoke lib r h w) = world_of (HandleLeaseRevokeByPath r' h w)"
proof (cases "Method r = ''PUT'' \<or> Method r = ''POST''")
  case False
  with assms(1) show ?thesis
    by (simp add: HandleLeaseRevoke_def HandleLeaseRevokeByPath_def)
next
  case True
  then have verb: "Method r' = ''PUT'' \<or> Method r' = ''POST''"
    using assms(1) by simp
  have remainder: "TrimPrefix (URL_Path r') ''/v1/sys/leases/revoke/'' = leaseID"
    unfolding assms(5) by (rule TrimPrefix_append)
  have asked: "requested_lease d = (if leaseID = [] then None else Some leaseID)"
    using assms(4) by (simp add: requested_lease_def)
  show ?thesis
    by (simp add: HandleLeaseRevoke_decoded [OF True assms(2,3)]
        HandleLeaseRevokeByPath_remainder [OF verb remainder] asked split: option.split)
qed

theorem revocation_entry_points_agree_witness:
  "status (response_of (HandleLeaseRevoke example_lib example_revoke leased_handler
      example_world)) =
     status (response_of (HandleLeaseRevokeByPath example_revoke_by_path leased_handler
       example_world))
   \<and> handler_of (HandleLeaseRevoke example_lib example_revoke leased_handler example_world) =
       handler_of (HandleLeaseRevokeByPath example_revoke_by_path leased_handler example_world)
   \<and> world_of (HandleLeaseRevoke example_lib example_revoke leased_handler example_world) =
       world_of (HandleLeaseRevokeByPath example_revoke_by_path leased_handler example_world)"
  using revocation_entry_points_agree [where r = example_revoke
      and r' = example_revoke_by_path and lib = example_lib
      and content = "lease_id_body example_lease_id"
      and d = "Some [(''lease_id'', GString example_lease_id)]"
      and leaseID = example_lease_id and h = leased_handler and w = example_world]
  by (simp add: example_revoke_def example_revoke_by_path_def decode_lease_id_body lookup_def)

section \<open>The response envelope\<close>

lemma request_id_same:
  "entropy w' = entropy w \<Longrightarrow> drawn w' = n \<Longrightarrow>
   fst (generateRequestID w') = request_id_at w n"
  by (simp add: request_id_at_def generateRequestID_def rand_Read_def split_beta)

lemma build_response_world:
  "entropy (snd (snd (build_response lib op p resp h w))) = entropy w"
  by (simp add: build_response_def mint_lease_def generateLeaseID_def generateRequestID_def
      rand_Read_def time_Now_def Let_def split_beta split: option.split)

lemma build_response_nil: "build_response lib op p None h w = (Map.empty, h, w)"
  by (simp add: build_response_def)

lemmas envelope_defs = build_response_def mint_lease_def generateLeaseID_def rand_Read_def
  time_Now_def Let_def split_beta mints_def

lemma build_response_request_id:
  "fst (build_response lib op p (Some rp) h w) ''request_id'' =
     Some (GString (request_id_at w (drawn w + (if mints op rp then 12 else 0))))"
  by (cases "resp_Auth rp"; cases "resp_Data rp"; cases "op = ReadOperation")
     (simp_all add: envelope_defs request_id_at_def generateRequestID_def)

lemma build_response_data:
  "fst (build_response lib op p (Some rp) h w) ''data'' = map_option GMap (resp_Data rp)"
  by (cases "resp_Auth rp"; cases "resp_Data rp"; cases "op = ReadOperation")
     (simp_all add: envelope_defs)

lemma build_response_warnings:
  "fst (build_response lib op p (Some rp) h w) ''warnings'' =
     (if resp_Warnings rp = [] then None else Some (GStrings (resp_Warnings rp)))"
  by (cases "resp_Auth rp"; cases "resp_Data rp"; cases "op = ReadOperation")
     (simp_all add: envelope_defs)

lemma build_response_stamps:
  "fst (build_response lib op p (Some rp) h w) ''wrap_info'' = Some GNil"
  "fst (build_response lib op p (Some rp) h w) ''mount_type'' =
     Some (GString (TrimPrefix (mountPath h) ''/''))"
  by (simp_all add: envelope_defs)

lemma build_response_no_lease:
  assumes "\<not> mints op rp"
  shows "fst (build_response lib op p (Some rp) h w) ''lease_id'' = None"
    and "fst (build_response lib op p (Some rp) h w) ''lease_duration'' = None"
    and "fst (build_response lib op p (Some rp) h w) ''renewable'' = None"
  using assms
  by (cases "resp_Auth rp"; cases "resp_Data rp"; cases "op = ReadOperation";
      simp add: envelope_defs)+

lemma build_response_others:
  assumes "k \<notin> set envelope_members"
  shows "fst (build_response lib op p (Some rp) h w) k = None"
  using assms
  by (cases "resp_Auth rp"; cases "resp_Data rp"; cases "op = ReadOperation")
     (simp_all add: envelope_defs envelope_members_def)


lemma example_request_id:
  "request_id_at example_world (drawn example_world) = ''00010203-0405-0607-0809-0a0b0c0d0e0f''"
  by code_simp

lemma content_type_write_json [simp]:
  "content_type (write_json response) = Some ''application/json''"
  by (simp add: write_json_def)

lemma body_write_json [simp]: "body (write_json response) = Some response"
  by (simp add: write_json_def)

text \<open>Claim C7, amended. On a successful backend call the answer has status 200 and
  content type \<^verbatim>\<open>application/json\<close>. When the backend returned no response the JSON
  object is empty. Otherwise it has \<^verbatim>\<open>data\<close> exactly when the response carries data and
  \<^verbatim>\<open>warnings\<close> exactly when the response has warnings; it never has a member
  \<^verbatim>\<open>secret\<close> (the secret is kept with the lease instead); it is stamped with a request
  ID made from sixteen bytes of the random source not drawn before, with the mount type
  (the mount path without a leading slash) and with a null \<^verbatim>\<open>wrap_info\<close>; the lease
  members are absent unless a lease was made; and it has no member outside the list of
  envelope members.\<close>

theorem response_envelope:
  assumes "backend h = Some b"
    and "read_request_data lib r = Inr d"
    and "spec_operation r (request_path h r) = Some (op, p)"
    and "b (trace w) (forwarded_request h op p d) = Inr answer"
  shows "status (response_of (HandleRequest lib r h w)) = StatusOK
       \<and> content_type (response_of (HandleRequest lib r h w)) = Some ''application/json''
       \<and> (answer = None \<longrightarrow> body (response_of (HandleRequest lib r h w)) = Some Map.empty)
       \<and> (answer = Some rp \<longrightarrow>
            member (response_of (HandleRequest lib r h w)) ''data'' =
              map_option GMap (resp_Data rp)
          \<and> member (response_of (HandleRequest lib r h w)) ''warnings'' =
              (if resp_Warnings rp = [] then None else Some (GStrings (resp_Warnings rp)))
          \<and> member (response_of (HandleRequest lib r h w)) ''secret'' = None
          \<and> member (response_of (HandleRequest lib r h w)) ''request_id'' =
              Some (GString (request_id_at w (drawn w + (if mints op rp then 12 else 0))))
          \<and> member (response_of (HandleRequest lib r h w)) ''mount_type'' =
              Some (GString (TrimPrefix (mountPath h) ''/''))
          \<and> member (response_of (HandleRequest lib r h w)) ''wrap_info'' = Some GNil
          \<and> (\<not> mints op rp \<longrightarrow>
                member (response_of (HandleRequest lib r h w)) ''lease_id'' = None
              \<and> member (response_of (HandleRequest lib r h w)) ''lease_duration'' = None
              \<and> member (response_of (HandleRequest lib r h w)) ''renewable'' = None)
          \<and> (\<forall>k. k \<notin> set envelope_members \<longrightarrow>
                member (response_of (HandleRequest lib r h w)) k = None))"
proof -
  let ?w = "w\<lparr>trace := trace w @ [Handle (forwarded_request h op p d)]\<rparr>"
  have run: "response_of (HandleRequest lib r h w) =
             write_json (fst (build_response lib op p answer h ?w))"
    using HandleRequest_answered [OF assms] by (simp add: split_beta)
  have same: "request_id_at ?w n = request_id_at w n" "drawn ?w = drawn w" for n
    by (simp_all add: request_id_at_def generateRequestID_def rand_Read_def split_beta)
  have secret: "''secret'' \<notin> set envelope_members"
    by (simp add: envelope_members_def)
  show ?thesis
    using build_response_no_lease [of op rp lib p h ?w]
    by (simp add: run build_response_nil build_response_data build_response_warnings
        build_response_request_id build_response_stamps build_response_others secret same)
qed

lemma example_get_secret_operation:
  "spec_operation example_get (request_path secret_handler example_get) =
     Some (ReadOperation, ''creds/test'')"
  by (simp add: example_get_def secret_handler_def SetBackend_def NewHandler_def string_defs
      spec_operation_def lifecycle_operations_def verb_operations_def lifecycle_match_def
      request_path_def Query_Get_def)

lemma secret_handler_facts:
  "backend secret_handler = Some secret_backend"
  "read_request_data example_lib example_get = Inr None"
  "secret_backend t req = Inr (Some secret_response)"
  "mountPath secret_handler = ''plugin''"
  by (simp_all add: secret_handler_def SetBackend_def NewHandler_def read_request_data_def
      example_get_def secret_backend_def)

text \<open>Claim C7 as stated fails for the secret: the backend's response to the example
  read carries a secret, and the JSON object of the 200 answer has no member
  \<^verbatim>\<open>secret\<close>.\<close>

theorem envelope_secret_counterexample:
  "secret_backend (trace example_world)
     (forwarded_request secret_handler ReadOperation ''creds/test'' None) =
     Inr (Some secret_response)
   \<and> resp_Secret secret_response = Some example_secret
   \<and> status (response_of (HandleRequest example_lib example_get secret_handler example_world)) =
       StatusOK
   \<and> member (response_of (HandleRequest example_lib example_get secret_handler example_world))
       ''secret'' = None"
proof -
  have secret: "''secret'' \<notin> set envelope_members"
    by (simp add: envelope_members_def)
  have "response_of (HandleRequest example_lib example_get secret_handler example_world) =
        write_json (fst (build_response example_lib ReadOperation ''creds/test''
          (Some secret_response) secret_handler
          (example_world\<lparr>trace := trace example_world @
             [Handle (forwarded_request secret_handler ReadOperation ''creds/test'' None)]\<rparr>)))"
    using HandleRequest_answered [OF secret_handler_facts(1,2) example_get_secret_operation
        secret_handler_facts(3), of example_world]
    by (simp add: split_beta)
  then show ?thesis
    by (simp add: secret_handler_facts build_response_others secret)
       (simp add: secret_response_def)
qed

theorem response_envelope_witness:
  "status (response_of (HandleRequest example_lib example_get secret_handler example_world)) =
     StatusOK
   \<and> content_type (response_of (HandleRequest example_lib example_get secret_handler
        example_world)) = Some ''application/json''
   \<and> member (response_of (HandleRequest example_lib example_get secret_handler example_world))
       ''data'' = None
   \<and> member (response_of (HandleRequest example_lib example_get secret_handler example_world))
       ''warnings'' = Some (GStrings [''rotation is due''])
   \<and> member (response_of (HandleRequest example_lib example_get secret_handler example_world))
       ''request_id'' = Some (GString ''00010203-0405-0607-0809-0a0b0c0d0e0f'')
   \<and> member (response_of (HandleRequest example_lib example_get secret_handler example_world))
       ''mount_type'' = Some (GString ''plugin'')
   \<and> member (response_of (HandleRequest example_lib example_get secret_handler example_world))
       ''lease_id'' = None"
  using response_envelope [OF secret_handler_facts(1,2) example_get_secret_operation
      secret_handler_facts(3), of example_world secret_response]
  by (simp add: mints_def secret_handler_facts TrimPrefix_def HasPrefix_def
      example_request_id)
     (simp add: secret_response_def)

section \<open>Start, Stop and the backend reference\<close>

lemma listPluginPaths_handler [simp]:
  "handler (fst (listPluginPaths lib h w)) = handler h"
  by (simp add: listPluginPaths_def split_beta Let_def
      split: option.split sum.split go_value.split)

lemma connect_published:
  assumes "fst (connect lib env ec h w) = None"
  shows "backend (handler (fst (snd (connect lib env ec h w)))) \<noteq> None"
  using assms
  by (simp add: connect_def SetBackend_def split_beta Let_def
      split: option.splits sum.splits dispensed.splits)

lemma Start_attach:
  assumes "host_backend h = None" and "attachString env = Some s" and "s \<noteq> []"
  shows "Start lib env h w = attach_plugin lib env s h w"
  using assms by (simp add: Start_def)

lemma Start_launch:
  assumes "host_backend h = None" and "launches env"
  shows "Start lib env h w = launch_plugin lib env h w"
  using assms by (auto simp add: Start_def launches_def)

lemma Start_published:
  assumes "fst (Start lib env h w) = None"
  shows "backend (handler (fst (snd (Start lib env h w)))) \<noteq> None"
proof -
  have attach: "backend (handler (fst (snd (attach_plugin lib env s h w)))) \<noteq> None"
    if "fst (attach_plugin lib env s h w) = None" for s
    using that connect_published [of lib env _ h w]
    by (simp add: attach_plugin_def Let_def split: if_splits)
  have launch: "backend (handler (fst (snd (launch_plugin lib env h w)))) \<noteq> None"
    if "fst (launch_plugin lib env h w) = None"
    using that connect_published [of lib env _ _ "record_event ProcessStart w"]
    by (simp add: launch_plugin_def Let_def split: if_splits option.splits)
  from assms attach launch show ?thesis
    by (simp add: Start_def split: if_splits option.splits)
qed


lemma backend_HandleLeaseRevoke:
  "backend (handler_of (HandleLeaseRevoke lib r h w)) = backend h"
  by (simp add: HandleLeaseRevoke_def Let_def split_beta split: sum.split option.split)

lemma backend_HandleLeaseRevokeByPath:
  "backend (handler_of (HandleLeaseRevokeByPath r h w)) = backend h"
  by (simp add: HandleLeaseRevokeByPath_def Let_def split_beta split: sum.split option.split)

lemma backend_HandleLeaseRenew:
  "HandleLeaseRenew lib r h w = Some (resp, h', w') \<Longrightarrow> backend h' = backend h"
  by (auto simp add: HandleLeaseRenew_def renew_commit_def split_beta
      split: prod.splits sum.splits option.splits)

lemma Stop_cleared: "backend (handler (fst (Stop ph w))) = None"
  by (simp add: Stop_def SetBackend_def Let_def)

lemma NewPluginHost_not_started: "backend (handler (NewPluginHost path cfg mount st)) = None"
  by (simp add: NewPluginHost_def NewHandler_def)

lemma HandleRequest_not_started:
  "backend h = None \<Longrightarrow>
   HandleRequest lib r h w =
     (writeVaultError StatusServiceUnavailable ''plugin not started'', h, w)"
  by (simp add: HandleRequest_def)

lemma backend_build_response [simp]:
  "backend (fst (snd (build_response lib op p resp h w))) = backend h"
  by (simp add: build_response_def mint_lease_def Let_def split_beta split: option.split)

lemma status_read_request_data:
  "read_request_data lib r = Inl rejected \<Longrightarrow> status rejected = StatusBadRequest"
  by (auto simp add: read_request_data_def split: if_splits sum.splits)

lemma status_codes [simp]:
  "StatusBadRequest \<noteq> StatusServiceUnavailable"
  "StatusMethodNotAllowed \<noteq> StatusServiceUnavailable"
  "StatusForbidden \<noteq> StatusServiceUnavailable"
  "StatusInternalServerError \<noteq> StatusServiceUnavailable"
  "StatusOK \<noteq> StatusServiceUnavailable"
  by (simp_all add: StatusBadRequest_def StatusServiceUnavailable_def
      StatusMethodNotAllowed_def StatusForbidden_def StatusInternalServerError_def
      StatusOK_def)

lemma HandleRequest_started:
  assumes "backend h = Some b"
  shows "status (response_of (HandleRequest lib r h w)) \<noteq> StatusServiceUnavailable"
    and "backend (handler_of (HandleRequest lib r h w)) = backend h"
proof -
  show "status (response_of (HandleRequest lib r h w)) \<noteq> StatusServiceUnavailable"
  proof (cases "read_request_data lib r")
    case (Inl rejected)
    with assms status_read_request_data [OF Inl] show ?thesis
      by (simp add: HandleRequest_def)
  next
    case (Inr d)
    with assms show ?thesis
      by (simp add: HandleRequest_def resolve_operation_spec backend_HandleRequest_def
          split_beta Let_def split: option.split sum.split)
  qed
  show "backend (handler_of (HandleRequest lib r h w)) = backend h"
    using assms
    by (simp add: HandleRequest_def resolve_operation_spec backend_HandleRequest_def
        split_beta Let_def split: option.split sum.split)
qed

lemma HandleRequest_rejected:
  assumes "backend h = Some b" and "read_request_data lib r = Inl rejected"
  shows "HandleRequest lib r h w = (rejected, h, w)"
  using assms by (simp add: HandleRequest_def)

lemma HandleRequest_not_allowed:
  assumes "backend h = Some b" and "read_request_data lib r = Inr d"
    and "spec_operation r (request_path h r) = None"
  shows "HandleRequest lib r h w =
         (writeVaultError StatusMethodNotAllowed ''unsupported method'', h, w)"
  using assms by (simp add: HandleRequest_def resolve_operation_spec)

text \<open>Claim C1, amended. While no backend is set (as in a new host, before a successful
  Start, and again after Stop) HandleRequest answers every request with 503 and the
  message \<^verbatim>\<open>plugin not started\<close>, and neither the handler nor the world changes: the
  backend is not called. A Start that returns no error has set the backend. While a
  backend is set no request is answered 503, and no handler clears the backend; the
  request is sent to the backend, with its resolved operation and path and its decoded
  body, unless it is rejected first: with 400 when the body of a POST or PUT cannot be
  read or decoded, or with 405 when no operation resolves; then nothing is sent.\<close>

theorem not_started_until_Start:
  "(backend h = None \<longrightarrow>
      HandleRequest lib r h w =
        (writeVaultError StatusServiceUnavailable ''plugin not started'', h, w))
   \<and> backend (handler (NewPluginHost path cfg mount st)) = None
   \<and> (fst (Start lib env ph w0) = None \<longrightarrow>
        backend (handler (fst (snd (Start lib env ph w0)))) \<noteq> None)
   \<and> (backend h \<noteq> None \<longrightarrow>
        status (response_of (HandleRequest lib r h w)) \<noteq> StatusServiceUnavailable
      \<and> backend (handler_of (HandleRequest lib r h w)) = backend h
      \<and> (case read_request_data lib r of
           Inl rejected \<Rightarrow>
             HandleRequest lib r h w = (rejected, h, w) \<and> status rejected = StatusBadRequest
         | Inr d \<Rightarrow>
             (case spec_operation r (request_path h r) of
                None \<Rightarrow>
                  HandleRequest lib r h w =
                    (writeVaultError StatusMethodNotAllowed ''unsupported method'', h, w)
              | Some (op, p) \<Rightarrow>
                  trace (world_of (HandleRequest lib r h w)) =
                    trace w @ [Handle (forwarded_request h op p d)])))
   \<and> backend (handler_of (HandleLeaseRevoke lib r h w)) = backend h
   \<and> backend (handler_of (HandleLeaseRevokeByPath r h w)) = backend h
   \<and> (case HandleLeaseRenew lib r h w of
        None \<Rightarrow> True
      | Some (resp, h', w') \<Rightarrow> backend h' = backend h)
   \<and> backend (handler (fst (Stop ph w1))) = None"
proof -
  have started: "status (response_of (HandleRequest lib r h w)) \<noteq> StatusServiceUnavailable
      \<and> backend (handler_of (HandleRequest lib r h w)) = backend h
      \<and> (case read_request_data lib r of
           Inl rejected \<Rightarrow>
             HandleRequest lib r h w = (rejected, h, w) \<and> status rejected = StatusBadRequest
         | Inr d \<Rightarrow>
             (case spec_operation r (request_path h r) of
                None \<Rightarrow>
                  HandleRequest lib r h w =
                    (writeVaultError StatusMethodNotAllowed ''unsupported method'', h, w)
              | Some (op, p) \<Rightarrow>
                  trace (world_of (HandleRequest lib r h w)) =
                    trace w @ [Handle (forwarded_request h op p d)]))"
    if set: "backend h = Some b" for b
  proof -
    have "case read_request_data lib r of
           Inl rejected \<Rightarrow>
             HandleRequest lib r h w = (rejected, h, w) \<and> status rejected = StatusBadRequest
         | Inr d \<Rightarrow>
             (case spec_operation r (request_path h r) of
                None \<Rightarrow>
                  HandleRequest lib r h w =
                    (writeVaultError StatusMethodNotAllowed ''unsupported method'', h, w)
              | Some (op, p) \<Rightarrow>
                  trace (world_of (HandleRequest lib r h w)) =
                    trace w @ [Handle (forwarded_request h op p d)])"
    proof (cases "read_request_data lib r")
      case (Inl rejected)
      then show ?thesis
        by (simp add: HandleRequest_rejected [OF set Inl] status_read_request_data [OF Inl])
    next
      case (Inr d)
      show ?thesis
      proof (cases "spec_operation r (request_path h r)")
        case None
        with Inr show ?thesis
          by (simp add: HandleRequest_not_allowed [OF set Inr None])
      next
        case (Some found)
        obtain op p where found: "found = (op, p)" by (cases found)
        with Some have "resolve_operation r (request_path h r) = Inr (op, p)"
          by (simp add: resolve_operation_spec)
        from HandleRequest_forwarded [OF set Inr this] Inr Some found show ?thesis
          by (simp add: forwarded_request_def)
      qed
    qed
    with HandleRequest_started [OF set] show ?thesis by simp
  qed
  have renew: "case HandleLeaseRenew lib r h w of
        None \<Rightarrow> True
      | Some (resp, h', w') \<Rightarrow> backend h' = backend h"
  proof (cases "HandleLeaseRenew lib r h w")
    case None
    then show ?thesis by simp
  next
    case (Some res)
    obtain resp h' w' where res: "res = (resp, h', w')" by (cases res)
    with Some have "backend h' = backend h"
      using backend_HandleLeaseRenew [of lib r h w resp h' w'] by simp
    with Some res show ?thesis by simp
  qed
  have unset: "backend h = None \<longrightarrow>
      HandleRequest lib r h w =
        (writeVaultError StatusServiceUnavailable ''plugin not started'', h, w)"
    using HandleRequest_not_started [of h lib r w] by blast
  have published: "fst (Start lib env ph w0) = None \<longrightarrow>
        backend (handler (fst (snd (Start lib env ph w0)))) \<noteq> None"
    using Start_published [of lib env ph w0] by blast
  have set: "backend h \<noteq> None \<longrightarrow>
        status (response_of (HandleRequest lib r h w)) \<noteq> StatusServiceUnavailable
      \<and> backend (handler_of (HandleRequest lib r h w)) = backend h
      \<and> (case read_request_data lib r of
           Inl rejected \<Rightarrow>
             HandleRequest lib r h w = (rejected, h, w) \<and> status rejected = StatusBadRequest
         | Inr d \<Rightarrow>
             (case spec_operation r (request_path h r) of
                None \<Rightarrow>
                  HandleRequest lib r h w =
                    (writeVaultError StatusMethodNotAllowed ''unsupported method'', h, w)
              | Some (op, p) \<Rightarrow>
                  trace (world_of (HandleRequest lib r h w)) =
                    trace w @ [Handle (forwarded_request h op p d)]))"
  proof
    assume "backend h \<noteq> None"
    then obtain b where "backend h = Some b" by blast
    then show "status (response_of (HandleRequest lib r h w)) \<noteq> StatusServiceUnavailable
      \<and> backend (handler_of (HandleRequest lib r h w)) = backend h
      \<and> (case read_request_data lib r of
           Inl rejected \<Rightarrow>
             HandleRequest lib r h w = (rejected, h, w) \<and> status rejected = StatusBadRequest
         | Inr d \<Rightarrow>
             (case spec_operation r (request_path h r) of
                None \<Rightarrow>
                  HandleRequest lib r h w =
                    (writeVaultError StatusMethodNotAllowed ''unsupported method'', h, w)
              | Some (op, p) \<Rightarrow>
                  trace (world_of (HandleRequest lib r h w)) =
                    trace w @ [Handle (forwarded_request h op p d)]))"
      by (rule started)
  qed
  from unset NewPluginHost_not_started [of path cfg mount st] published set
    backend_HandleLeaseRevoke [of lib r h w] backend_HandleLeaseRevokeByPath [of r h w]
    renew Stop_cleared [of ph w1]
  show ?thesis
    by (intro conjI) assumption+
qed

lemma typed_attach_parts:
  "descriptor_parts typed_attach_string =
     [''1'', ''4'', ''unix'', ''/tmp/plugin.sock'', ''grpc'', [CHR 0x0A]]"
  "typed_attach_string \<noteq> []"
  by (simp_all add: descriptor_parts_def typed_attach_string_def TrimSuffix_def HasSuffix_def
      Split_def)

lemma started_facts:
  "fst started = None"
  "handler started_host = example_handler"
  "trace started_world =
     [Setup, Initialize,
      Handle \<lparr>req_Operation = HelpOperation, req_Path = [], req_Storage = 0,
              req_Data = Some [(''requestResponsePrefix'', GString [])],
              req_Secret = None\<rparr>]"
  by (simp_all add: started_host_def started_world_def started_def Start_def example_env_def
      example_host_def NewPluginHost_def attach_plugin_def typed_attach_parts
      connect_def example_plugin_def listPluginPaths_def backend_HandleRequest_def
      example_backend_def record_event_def example_world_def example_handler_def Let_def)

lemma example_patch_facts:
  "read_request_data lib example_patch = Inr None"
  "spec_operation example_patch (request_path example_handler example_patch) = None"
  "backend example_handler = Some example_backend"
  "backend (handler example_host) = None"
  by (simp_all add: example_patch_def read_request_data_def example_defs string_defs
      spec_operation_def lifecycle_operations_def verb_operations_def lifecycle_match_def
      request_path_def Query_Get_def example_host_def NewPluginHost_def)

text \<open>Claim C1 as stated fails for a request that is not forwarded once the plugin has
  started: a PATCH to a plugin path is answered 503 before Start, and after a successful
  Start it is answered 405 and the trace of the plugin is as Start left it.\<close>

theorem unsupported_verb_counterexample:
  "status (response_of (HandleRequest example_lib example_patch (handler example_host)
      example_world)) = StatusServiceUnavailable
   \<and> fst started = None
   \<and> status (response_of (HandleRequest example_lib example_patch (handler started_host)
        started_world)) = StatusMethodNotAllowed
   \<and> trace (world_of (HandleRequest example_lib example_patch (handler started_host)
        started_world)) = trace started_world"
  by (simp add: started_facts(1,2) HandleRequest_not_started [OF example_patch_facts(4)]
      HandleRequest_not_allowed [OF example_patch_facts(3,1,2)])

lemma example_get_data: "read_request_data lib example_get = Inr None"
  by (simp add: read_request_data_def example_get_def)

theorem not_started_until_Start_witness:
  "HandleRequest example_lib example_get (handler example_host) example_world =
     (writeVaultError StatusServiceUnavailable ''plugin not started'', handler example_host,
      example_world)
   \<and> backend (handler started_host) \<noteq> None
   \<and> status (response_of (HandleRequest example_lib example_get (handler started_host)
        started_world)) \<noteq> StatusServiceUnavailable
   \<and> trace (world_of (HandleRequest example_lib example_get (handler started_host)
        started_world)) =
       trace started_world @
         [Handle (forwarded_request example_handler ReadOperation ''creds/test'' None)]
   \<and> backend (handler (fst (Stop started_host started_world))) = None"
proof -
  note before = not_started_until_Start [where h = "handler example_host"
      and lib = example_lib and r = example_get and w = example_world and env = example_env
      and ph = example_host and ?w0.0 = example_world and ?w1.0 = example_world]
  note after = not_started_until_Start [where h = "handler started_host"
      and lib = example_lib and r = example_get and w = started_world and ph = started_host
      and ?w1.0 = started_world]
  have a: "HandleRequest example_lib example_get (handler example_host) example_world =
     (writeVaultError StatusServiceUnavailable ''plugin not started'', handler example_host,
      example_world)"
    using before example_patch_facts(4) by simp
  have b: "backend (handler started_host) \<noteq> None"
    using before started_facts(1) by (simp add: started_host_def started_def)
  have c: "status (response_of (HandleRequest example_lib example_get (handler started_host)
        started_world)) \<noteq> StatusServiceUnavailable
     \<and> trace (world_of (HandleRequest example_lib example_get (handler started_host)
        started_world)) =
       trace started_world @
         [Handle (forwarded_request example_handler ReadOperation ''creds/test'' None)]"
    using after
    by (simp add: started_facts(2) example_patch_facts(3) example_get_data
        example_get_operation)
  have d: "backend (handler (fst (Stop started_host started_world))) = None"
    using after by simp
  from a b c d show ?thesis by simp
qed


lemma attach_plugin_fields:
  "attach_plugin lib env s h w =
     (if length (descriptor_parts s) < 5 then
        (Some (''invalid attach string format, expected '' @ [CHR 0x27]
               @ ''version|maxversion|network|socket|protocol|'' @ [CHR 0x27]), h, w)
      else connect lib env (external_config lib (descriptor_parts s)) h w)"
  by (simp add: attach_plugin_def Let_def)

lemma launch_plugin_fields:
  assumes "StdoutPipe env = None" and "cmd_Start env = None" and "captured lib env \<noteq> []"
  shows "launch_plugin lib env h w =
     (if length (descriptor_parts (captured lib env)) < 5 then
        (Some (''invalid reattach string format: '' @ captured lib env), h,
         record_event ProcessKill (record_event ProcessStart w))
      else connect lib env (external_config lib (descriptor_parts (captured lib env)))
             (h\<lparr>pluginCmd := Some (pluginPath h)\<rparr>) (record_event ProcessStart w))"
  using assms
  by (simp add: launch_plugin_def captured_def Let_def)

text \<open>Claim C8, amended. With no backend set yet, a descriptor (the attach string when
  one is given and not empty; else, once the process is started, the line captured from
  its output) is accepted exactly when, after one trailing \<^verbatim>\<open>|\<close> is removed, it has at
  least five fields: then Start goes on to connect with the configuration read from the
  fields. With fewer fields Start returns an error and the host is unchanged; in attach
  mode nothing else has happened, in launch mode the process that was started has been
  killed.\<close>

theorem descriptor_needs_five_fields:
  assumes "host_backend h = None"
  shows "(attachString env = Some s \<and> s \<noteq> [] \<longrightarrow>
            (length (descriptor_parts s) < 5 \<longrightarrow>
               Start lib env h w =
                 (Some (''invalid attach string format, expected '' @ [CHR 0x27]
                        @ ''version|maxversion|network|socket|protocol|'' @ [CHR 0x27]), h, w))
          \<and> (5 \<le> length (descriptor_parts s) \<longrightarrow>
               Start lib env h w =
                 connect lib env (external_config lib (descriptor_parts s)) h w))
       \<and> (launches env \<and> StdoutPipe env = None \<and> cmd_Start env = None \<longrightarrow>
            (length (descriptor_parts (captured lib env)) < 5 \<longrightarrow>
               fst (Start lib env h w) \<noteq> None
             \<and> snd (Start lib env h w) =
                 (h, record_event ProcessKill (record_event ProcessStart w)))
          \<and> (5 \<le> length (descriptor_parts (captured lib env)) \<longrightarrow>
               Start lib env h w =
                 connect lib env (external_config lib (descriptor_parts (captured lib env)))
                   (h\<lparr>pluginCmd := Some (pluginPath h)\<rparr>) (record_event ProcessStart w)))"
proof -
  have attach: "Start lib env h w = attach_plugin lib env s h w"
    if "attachString env = Some s" "s \<noteq> []"
    using Start_attach [OF assms that] .
  have launch: "Start lib env h w = launch_plugin lib env h w" if "launches env"
    using Start_launch [OF assms that] .
  have none: "launch_plugin lib env h w =
      (Some ''failed to get reattach info from plugin'', h,
       record_event ProcessKill (record_event ProcessStart w))"
    if "StdoutPipe env = None" "cmd_Start env = None" "captured lib env = []"
    using that by (simp add: launch_plugin_def captured_def Let_def)
  have one: "length (descriptor_parts []) = 1"
    by (simp add: descriptor_parts_def Split_def TrimSuffix_def HasSuffix_def)
  show ?thesis
    using attach launch none one
    by (cases "captured lib env = []")
       (auto simp add: attach_plugin_fields launch_plugin_fields)
qed

text \<open>Claim C8 as stated fails for a descriptor of more than five fields: the attach
  string as typed at the prompt, with its newline, has six, and Start succeeds with the
  configuration read from the first five.\<close>

theorem six_fields_counterexample:
  "attachString example_env = Some typed_attach_string
   \<and> length (descriptor_parts typed_attach_string) = 6
   \<and> fst started = None
   \<and> host_client started_host =
       Some \<lparr>ec_Protocol = ProtocolGRPC, ec_ProtocolVersion = 4,
             ec_Addr_Name = ''/tmp/plugin.sock'', ec_Addr_Net = ''unix''\<rparr>"
  by (simp add: typed_attach_parts started_facts(1))
     (simp add: started_host_def started_def Start_def example_env_def
      example_host_def NewPluginHost_def attach_plugin_def typed_attach_parts
      connect_def example_plugin_def listPluginPaths_def backend_HandleRequest_def
      example_backend_def record_event_def external_config_def example_lib_def Let_def)

lemma short_facts:
  "host_backend example_host = None"
  "attachString short_env = Some ''1|4|unix|/tmp/plugin.sock''"
  "descriptor_parts ''1|4|unix|/tmp/plugin.sock'' = [''1'', ''4'', ''unix'', ''/tmp/plugin.sock'']"
  "launches short_launch_env"
  "StdoutPipe short_launch_env = None" "cmd_Start short_launch_env = None"
  "captured example_lib short_launch_env = ''1|4|unix|/tmp/plugin.sock''"
  "attachString example_env = Some typed_attach_string"
  by (simp_all add: example_host_def NewPluginHost_def short_env_def short_launch_env_def
      example_env_def descriptor_parts_def Split_def TrimSuffix_def HasSuffix_def
      launches_def captured_def example_lib_def HasPrefix_def)

theorem descriptor_needs_five_fields_witness:
  "fst (Start example_lib short_env example_host example_world) \<noteq> None
   \<and> snd (Start example_lib short_env example_host example_world) =
       (example_host, example_world)
   \<and> fst (Start example_lib short_launch_env example_host example_world) \<noteq> None
   \<and> trace (snd (snd (Start example_lib short_launch_env example_host example_world))) =
       [ProcessStart, ProcessKill]
   \<and> Start example_lib example_env example_host example_world =
       connect example_lib example_env
         (external_config example_lib (descriptor_parts typed_attach_string))
         example_host example_world"
  using
    descriptor_needs_five_fields [OF short_facts(1), where env = short_env
      and s = "''1|4|unix|/tmp/plugin.sock''" and lib = example_lib and w = example_world]
    descriptor_needs_five_fields [OF short_facts(1), where env = short_launch_env
      and lib = example_lib and w = example_world]
    descriptor_needs_five_fields [OF short_facts(1), where env = example_env
      and s = typed_attach_string and lib = example_lib and w = example_world]
  by (simp add: short_facts typed_attach_parts record_event_def example_world_def)

section \<open>A renewal interrupted by a revocation\<close>

lemma example_renew_begins:
  "renew_begin example_lib example_renew leased_handler later_world =
     (Inr \<lparr>rn_leaseID = example_lease_id, rn_increment = 24 * Hour,
           rn_leaseInfo = example_lease, rn_newExpireTime = 86401000001000\<rparr>,
      later_world\<lparr>ticks := 2\<rparr>)"
  by (simp add: renew_begin_decoded [OF example_renew_decoded] requested_example_lease
      default_increment)
     (simp add: leased_defs sint_day numeral_2_eq_2 default_increment)

lemma leased_handler_facts:
  "leases leased_handler example_lease_id = Some example_lease"
  "backend leased_handler = Some example_backend"
  by (simp_all add: leased_handler_def example_handler_def SetBackend_def NewHandler_def)

text \<open>Claim C9 does not hold of the code. The renewal of the example lease, run alone,
  is answered 200. Run with the revocation of the same lease between its lookup and its
  update, the revocation is answered 204 and the renewal, which found the lease and told
  the backend of the renewal, then updates a table entry that is no longer there and
  panics: it neither completed before the record was removed nor observed that the lease
  was not found.\<close>

theorem renewal_cut_by_revocation_panics:
  "status_after (HandleLeaseRenew example_lib example_renew leased_handler later_world) =
     Some StatusOK
   \<and> status (response_of (HandleLeaseRevoke example_lib example_revoke leased_handler
        (later_world\<lparr>ticks := 2\<rparr>))) = StatusNoContent
   \<and> renewal_cut_by_revocation example_lib example_renew example_revoke leased_handler
        later_world = None"
  by (simp add: renewal_cut_by_revocation_def example_renew_begins
      HandleLeaseRevoke_decoded [OF example_revoke_decoded]
      HandleLeaseRenew_decoded [OF example_renew_decoded]
      requested_example_lease leased_handler_facts renew_notify_def renew_commit_def
      backend_HandleRequest_def Let_def)
     (simp add: example_backend_def example_lease_def later_world_def example_world_def
      renew_commit_def)

end
